theory Spec2Isabelle
  imports Complex_Main
begin

section \<open>Python values and primitives used by the RPC client\<close>

text \<open>
  The client of \<^verbatim>\<open>fuzzing_cli/fuzz/rpc/rpc.py\<close> manipulates the JSON values a node
  returns as untyped Python objects. A JSON value is a \<open>json\<close>; a Python \<open>dict\<close>
  with string keys is an association list in insertion order, read with \<open>map_of\<close>.
  JSON numbers are integers here (the node encodes every quantity as a hex string).
  Strings are lists of bytes: a character outside ASCII is its UTF-8 bytes.
\<close>

datatype json =
    JNull
  | JBool bool
  | JInt int
  | JStr string
  | JArr "json list"
  | JObj "(string \<times> json) list"

type_synonym pydict = "(string \<times> json) list"

text \<open>
  The exceptions the module raises or lets through, one constructor per class.
  \<open>UsageError\<close> is a subclass of \<open>ClickException\<close> in click, and so is
  \<open>RPCCallError\<close>, through \<open>FaaSError\<close>.
\<close>

datatype error =
    RPCCallError string
  | ClickException string
  | UsageError string
  | KeyError string
  | TypeError
  | ValueError
  | AttributeError

definition ebind :: "error + 'a \<Rightarrow> ('a \<Rightarrow> error + 'b) \<Rightarrow> error + 'b" where
  "ebind m f = (case m of Inl e \<Rightarrow> Inl e | Inr x \<Rightarrow> f x)"

text \<open>Python truthiness (\<open>if x:\<close>, \<open>not x\<close>) of a JSON value.\<close>

fun truthy :: "json \<Rightarrow> bool" where
  "truthy JNull = False"
| "truthy (JBool b) = b"
| "truthy (JInt i) = (i \<noteq> 0)"
| "truthy (JStr s) = (s \<noteq> [])"
| "truthy (JArr xs) = (xs \<noteq> [])"
| "truthy (JObj kvs) = (kvs \<noteq> [])"

text \<open>\<open>d[k]\<close> on a dict: \<open>KeyError\<close> when the key is absent.\<close>

definition dict_getitem :: "(string \<times> 'v) list \<Rightarrow> string \<Rightarrow> error + 'v" where
  "dict_getitem d k = (case map_of d k of None \<Rightarrow> Inl (KeyError k) | Some v \<Rightarrow> Inr v)"

text \<open>
  \<open>x[k]\<close> with a string key on any JSON value: only a dict can be subscripted by a
  string; \<open>None\<close>, numbers, strings and lists raise \<open>TypeError\<close>.
\<close>

fun getitem :: "json \<Rightarrow> string \<Rightarrow> error + json" where
  "getitem (JObj d) k = dict_getitem d k"
| "getitem _ k = Inl TypeError"

text \<open>\<open>d[k] = v\<close>: an existing key keeps its position, a new key goes last.\<close>

fun dict_setitem :: "(string \<times> 'v) list \<Rightarrow> string \<Rightarrow> 'v \<Rightarrow> (string \<times> 'v) list" where
  "dict_setitem [] k v = [(k, v)]"
| "dict_setitem ((k', v') # d) k v =
     (if k' = k then (k, v) # d else (k', v') # dict_setitem d k v)"

text \<open>
  A Python \<open>set\<close> is a list without duplicates. CPython leaves the iteration order of
  a set unspecified; the model iterates in insertion order, and the theorems below speak
  of membership only.
\<close>

definition set_add :: "'a list \<Rightarrow> 'a \<Rightarrow> 'a list" where
  "set_add s x = (if x \<in> set s then s else s @ [x])"

definition set_update :: "'a list \<Rightarrow> 'a list \<Rightarrow> 'a list" where
  "set_update s xs = foldl set_add s xs"

text \<open>\<open>str.lower()\<close> on ASCII text.\<close>

definition lower_char :: "char \<Rightarrow> char" where
  "lower_char c =
     (let n = (of_char c :: nat) in if 65 \<le> n \<and> n \<le> 90 then char_of (n + 32) else c)"

definition lower :: "string \<Rightarrow> string" where
  "lower s = map lower_char s"

text \<open>\<open>sep.join(xs)\<close>.\<close>

fun join :: "string \<Rightarrow> string list \<Rightarrow> string" where
  "join sep [] = []"
| "join sep [x] = x"
| "join sep (x # y # ys) = x @ sep @ join sep (y # ys)"

subsection \<open>\<open>hex(n)\<close> and \<open>int(s, 16)\<close>\<close>

definition hex_char :: "nat \<Rightarrow> char" where
  "hex_char d = (''0123456789abcdef'') ! d"

fun hex_digits :: "nat \<Rightarrow> string" where
  "hex_digits n = (if n < 16 then [hex_char n] else hex_digits (n div 16) @ [hex_char (n mod 16)])"

declare hex_digits.simps [simp del]

definition hex :: "int \<Rightarrow> string" where
  "hex i = (if i < 0 then ''-0x'' @ hex_digits (nat (- i)) else ''0x'' @ hex_digits (nat i))"

definition hex_digit_val :: "char \<Rightarrow> nat option" where
  "hex_digit_val c =
     (let n = (of_char c :: nat) in
      if 48 \<le> n \<and> n \<le> 57 then Some (n - 48)
      else if 97 \<le> n \<and> n \<le> 102 then Some (n - 87)
      else if 65 \<le> n \<and> n \<le> 70 then Some (n - 55)
      else None)"

text \<open>
  The digits of a literal: single underscores may separate digits, a trailing or a
  doubled underscore is refused.
\<close>

fun parse_hex_digits :: "string \<Rightarrow> nat \<Rightarrow> bool \<Rightarrow> nat option" where
  "parse_hex_digits [] acc prev_us = (if prev_us then None else Some acc)"
| "parse_hex_digits (c # cs) acc prev_us =
     (if c = CHR ''_'' then (if prev_us then None else parse_hex_digits cs acc True)
      else (case hex_digit_val c of
              None \<Rightarrow> None
            | Some d \<Rightarrow> parse_hex_digits cs (16 * acc + d) False))"

definition is_space :: "char \<Rightarrow> bool" where
  "is_space c = (let n = (of_char c :: nat) in (9 \<le> n \<and> n \<le> 13) \<or> n = 32)"

definition strip :: "string \<Rightarrow> string" where
  "strip s = rev (dropWhile is_space (rev (dropWhile is_space s)))"

text \<open>
  \<open>int(s, 16)\<close> on a string: surrounding whitespace is dropped, then an optional sign,
  an optional \<open>0x\<close>/\<open>0X\<close> prefix (after which one underscore is allowed) and the
  digits, which must not start with an underscore. \<open>None\<close> is Python's \<open>ValueError\<close>.
\<close>

definition split_sign :: "string \<Rightarrow> int \<times> string" where
  "split_sign s =
     (case s of
        c # r \<Rightarrow> if c = CHR ''-'' then (- 1, r) else if c = CHR ''+'' then (1, r) else (1, s)
      | [] \<Rightarrow> (1, s))"

definition strip_hex_prefix :: "string \<Rightarrow> string" where
  "strip_hex_prefix s =
     (case s of
        c # x # r \<Rightarrow>
          if c = CHR ''0'' \<and> (x = CHR ''x'' \<or> x = CHR ''X'')
          then (case r of u # r' \<Rightarrow> if u = CHR ''_'' then r' else r | [] \<Rightarrow> r)
          else s
      | _ \<Rightarrow> s)"

definition int_of_hex :: "string \<Rightarrow> int option" where
  "int_of_hex s =
     (let (sign, t) = split_sign (strip s);
          ds = strip_hex_prefix t
      in case ds of
           [] \<Rightarrow> None
         | c # _ \<Rightarrow>
             if c = CHR ''_'' then None
             else map_option (\<lambda>n. sign * int n) (parse_hex_digits ds 0 False))"

text \<open>
  \<open>int(x, 16)\<close> on a JSON value: anything but a string is a \<open>TypeError\<close> (an explicit
  base needs a string).
\<close>

fun py_int16 :: "json \<Rightarrow> error + int" where
  "py_int16 (JStr s) = (case int_of_hex s of None \<Rightarrow> Inl ValueError | Some n \<Rightarrow> Inr n)"
| "py_int16 _ = Inl TypeError"

text \<open>
  The parameters of a call are strings, booleans or integers
  (\<open>List[Union[str, bool, int, float]]\<close>; no call of the module passes a float).
  \<open>repr_param\<close> is Python's \<open>repr\<close> as the f-string of the transport error prints
  it; the quoting of a string is the one Python uses for printable text without quotes
  or backslashes.
\<close>

datatype param = PStr string | PBool bool | PInt int

fun json_of_param :: "param \<Rightarrow> json" where
  "json_of_param (PStr s) = JStr s"
| "json_of_param (PBool b) = JBool b"
| "json_of_param (PInt i) = JInt i"

fun dec_digits :: "nat \<Rightarrow> string" where
  "dec_digits n = (if n < 10 then [hex_char n] else dec_digits (n div 10) @ [hex_char (n mod 10)])"

declare dec_digits.simps [simp del]

fun repr_param :: "param \<Rightarrow> string" where
  "repr_param (PStr s) = [CHR 0x27] @ s @ [CHR 0x27]"
| "repr_param (PBool b) = (if b then ''True'' else ''False'')"
| "repr_param (PInt i) = (if i < 0 then ''-'' @ dec_digits (nat (- i)) else dec_digits (nat i))"

definition repr_params :: "param list \<Rightarrow> string" where
  "repr_params ps = ''['' @ join '', '' (map repr_param ps) @ '']''"

section \<open>Chain Reader\<close>

text \<open>
  The HTTP layer (\<open>requests.request(...).json()\<close>) is a parameter: given the URL and
  the JSON payload it either fails with a \<open>RequestException\<close> or yields the decoded
  body. The node is a snapshot: its answer depends on the request only. Every request
  that \<open>call\<close> sends is appended to a log of sent requests, so that the number of requests a function
  issues can be stated.
\<close>

datatype http_outcome = RequestException | Body json

type_synonym requests = "string \<Rightarrow> json \<Rightarrow> http_outcome"

type_synonym rpc_request = "string \<times> param list"

type_synonym 'a rpc = "rpc_request list \<Rightarrow> (error + 'a) \<times> rpc_request list"

record RPCClient =
  rpc_url :: string
  number_of_cores :: int

definition NUM_BLOCKS_UPPER_LIMIT :: int where
  "NUM_BLOCKS_UPPER_LIMIT = 9999"

definition rpc_bind :: "'a rpc \<Rightarrow> ('a \<Rightarrow> 'b rpc) \<Rightarrow> 'b rpc" where
  "rpc_bind m f sent = (case m sent of (Inl e, sent') \<Rightarrow> (Inl e, sent') | (Inr x, sent') \<Rightarrow> f x sent')"

definition rpc_return :: "'a \<Rightarrow> 'a rpc" where
  "rpc_return x sent = (Inr x, sent)"

definition rpc_raise :: "error \<Rightarrow> 'a rpc" where
  "rpc_raise e sent = (Inl e, sent)"

definition rpc_lift :: "error + 'a \<Rightarrow> 'a rpc" where
  "rpc_lift r sent = (r, sent)"

text \<open>The result of an RPC computation started with nothing sent yet.\<close>

definition run_rpc :: "'a rpc \<Rightarrow> error + 'a" where
  "run_rpc m = fst (m [])"

definition rpc_payload :: "string \<Rightarrow> param list \<Rightarrow> json" where
  "rpc_payload method params =
     JObj [(''jsonrpc'', JStr ''2.0''), (''method'', JStr method),
           (''params'', JArr (map json_of_param params)), (''id'', JInt 1)]"

definition rpc_call_error_message :: "RPCClient \<Rightarrow> string \<Rightarrow> param list \<Rightarrow> string" where
  "rpc_call_error_message self method params =
     ''HTTP error calling RPC method '' @ method @ '' with parameters: '' @ repr_params params
     @ [CHR 0x0A] @ ''Are you sure the RPC is running at '' @ rpc_url self @ ''?''"

text \<open>
  \<open>call\<close>: the \<open>result\<close> member of the response, \<open>None\<close> when it is absent. A body
  that is not an object has no \<open>get\<close>: \<open>AttributeError\<close>.
\<close>

definition call :: "requests \<Rightarrow> RPCClient \<Rightarrow> string \<Rightarrow> param list \<Rightarrow> json rpc" where
  "call net self method params sent =
     ((case net (rpc_url self) (rpc_payload method params) of
         RequestException \<Rightarrow> Inl (RPCCallError (rpc_call_error_message self method params))
       | Body (JObj response) \<Rightarrow>
           Inr (case map_of response ''result'' of None \<Rightarrow> JNull | Some r \<Rightarrow> r)
       | Body _ \<Rightarrow> Inl AttributeError),
      sent @ [(method, params)])"

definition get_block :: "requests \<Rightarrow> RPCClient \<Rightarrow> bool \<Rightarrow> int \<Rightarrow> json rpc" where
  "get_block net self latest block_number =
     (let block_value = (if latest then ''latest'' else hex block_number)
      in call net self ''eth_getBlockByNumber'' [PStr block_value, PBool True])"

definition get_block_by_hash :: "requests \<Rightarrow> RPCClient \<Rightarrow> string \<Rightarrow> json rpc" where
  "get_block_by_hash net self hash = call net self ''eth_getBlockByHash'' [PStr hash, PBool True]"

text \<open>\<open>get_code\<close>: the result \<open>JNull\<close> is Python's \<open>None\<close>.\<close>

definition get_code :: "requests \<Rightarrow> RPCClient \<Rightarrow> string \<Rightarrow> json rpc" where
  "get_code net self contract_address =
     rpc_bind (call net self ''eth_getCode'' [PStr contract_address, PStr ''latest''])
       (\<lambda>deployed_bytecode.
          if deployed_bytecode = JStr ''0x'' then rpc_return JNull
          else rpc_return deployed_bytecode)"

definition get_latest_block_number :: "requests \<Rightarrow> RPCClient \<Rightarrow> int rpc" where
  "get_latest_block_number net self =
     rpc_bind (get_block net self True (- 1))
       (\<lambda>latest_block.
          if \<not> truthy latest_block then rpc_return (- 1)
          else rpc_lift (ebind (getitem latest_block ''number'') py_int16))"

text \<open>The loop \<open>for i in range(0, num_of_blocks)\<close>: \<open>k\<close> iterations are left from \<open>i\<close> on.\<close>

fun fetch_blocks :: "requests \<Rightarrow> RPCClient \<Rightarrow> nat \<Rightarrow> nat \<Rightarrow> json list \<Rightarrow> json list rpc" where
  "fetch_blocks net self i 0 blocks = rpc_return blocks"
| "fetch_blocks net self i (Suc k) blocks =
     rpc_bind (get_block net self False (int i))
       (\<lambda>b. fetch_blocks net self (Suc i) k (blocks @ [b]))"

definition scan_bound_message :: "RPCClient \<Rightarrow> string" where
  "scan_bound_message self =
     ''Number of blocks existing on the ethereum node running at '' @ rpc_url self
     @ '' can not exceed 10000. Did you pass the correct RPC url?''"

definition get_all_blocks :: "requests \<Rightarrow> RPCClient \<Rightarrow> json list rpc" where
  "get_all_blocks net self =
     rpc_bind (get_latest_block_number net self)
       (\<lambda>latest.
          let num_of_blocks = latest + 1 in
          if num_of_blocks = 0 then rpc_return []
          else if num_of_blocks > NUM_BLOCKS_UPPER_LIMIT
          then rpc_raise (ClickException (scan_bound_message self))
          else fetch_blocks net self 0 (nat num_of_blocks) [])"

section \<open>Transaction Collector\<close>

text \<open>
  \<open>for key, value in dict(transaction).items(): if value is None: transaction[key] = ""\<close>:
  every top-level member that is \<open>None\<close> becomes the empty string, in place.
\<close>

definition normalize_nulls :: "pydict \<Rightarrow> pydict" where
  "normalize_nulls transaction =
     map (\<lambda>(key, v). (key, if v = JNull then JStr [] else v)) transaction"

text \<open>\<open>d.update(other)\<close>: the members of \<open>other\<close> are stored in their order.\<close>

definition dict_update :: "(string \<times> 'v) list \<Rightarrow> (string \<times> 'v) list \<Rightarrow> (string \<times> 'v) list" where
  "dict_update d other = foldl (\<lambda>d' (k, v). dict_setitem d' k v) d other"

text \<open>
  The dict literal of the \<open>update\<close>: the four members of the block are read in this
  order, and the first one that is missing raises.
\<close>

definition block_fields :: "json \<Rightarrow> error + pydict" where
  "block_fields block =
     ebind (getitem block ''miner'') (\<lambda>miner.
     ebind (getitem block ''difficulty'') (\<lambda>difficulty.
     ebind (getitem block ''gasLimit'') (\<lambda>gasLimit.
     ebind (getitem block ''timestamp'') (\<lambda>timestamp.
       Inr [(''blockCoinbase'', miner), (''blockDifficulty'', difficulty),
            (''blockGasLimit'', gasLimit), (''blockTimestamp'', timestamp)]))))"

text \<open>
  One pass of the inner loop body. A transaction that is not an object makes
  \<open>dict(transaction)\<close>, the item assignment or \<open>update\<close> raise (\<open>TypeError\<close>,
  \<open>ValueError\<close> or \<open>AttributeError\<close>, depending on its shape); the model reports
  \<open>TypeError\<close> for all of them.
\<close>

definition process_transaction :: "json \<Rightarrow> json \<Rightarrow> error + pydict" where
  "process_transaction block transaction =
     (case transaction of
        JObj d \<Rightarrow> ebind (block_fields block) (\<lambda>fields. Inr (dict_update (normalize_nulls d) fields))
      | _ \<Rightarrow> Inl TypeError)"

text \<open>
  \<open>for transaction in block["transactions"]\<close>: a list yields its elements, a string its
  characters, a dict its keys; anything else is not iterable.
\<close>

fun py_iter :: "json \<Rightarrow> error + json list" where
  "py_iter (JArr xs) = Inr xs"
| "py_iter (JStr s) = Inr (map (\<lambda>c. JStr [c]) s)"
| "py_iter (JObj kvs) = Inr (map (\<lambda>kv. JStr (fst kv)) kvs)"
| "py_iter _ = Inl TypeError"

fun process_block_transactions :: "json \<Rightarrow> json list \<Rightarrow> pydict list \<Rightarrow> error + pydict list" where
  "process_block_transactions block [] processed = Inr processed"
| "process_block_transactions block (t # ts) processed =
     ebind (process_transaction block t)
       (\<lambda>t'. process_block_transactions block ts (processed @ [t']))"

text \<open>
  \<open>block["number"] in block_numbers_to_skip\<close>, the skip list being a \<open>List[str]\<close>: a
  value that is not a string equals no string.
\<close>

fun in_skip_list :: "json \<Rightarrow> string list \<Rightarrow> bool" where
  "in_skip_list (JStr s) skip = (s \<in> set skip)"
| "in_skip_list _ skip = False"

fun process_blocks :: "string list \<Rightarrow> json list \<Rightarrow> pydict list \<Rightarrow> error + pydict list" where
  "process_blocks skip [] processed = Inr processed"
| "process_blocks skip (block # blocks) processed =
     ebind (getitem block ''number'') (\<lambda>number.
       if in_skip_list number skip then process_blocks skip blocks processed
       else
         ebind (getitem block ''transactions'') (\<lambda>txs.
         ebind (py_iter txs) (\<lambda>ts.
         ebind (process_block_transactions block ts processed) (\<lambda>processed'.
           process_blocks skip blocks processed'))))"

text \<open>
  \<open>get_transactions\<close>: \<open>if not blocks\<close> holds for \<open>None\<close> and for the empty list; both
  fetch the blocks of the node.
\<close>

definition get_transactions ::
  "requests \<Rightarrow> RPCClient \<Rightarrow> json list option \<Rightarrow> string list \<Rightarrow> error + pydict list" where
  "get_transactions net self blocks block_numbers_to_skip =
     ebind (case blocks of
              None \<Rightarrow> run_rpc (get_all_blocks net self)
            | Some bs \<Rightarrow> if bs = [] then run_rpc (get_all_blocks net self) else Inr bs)
       (\<lambda>bs. process_blocks block_numbers_to_skip bs [])"

section \<open>Seed State Builder\<close>

type_synonym SeedSequenceTransaction = "(string \<times> string) list"

record Lesson =
  description :: string
  transactions :: "SeedSequenceTransaction list list"

record AnalysisSetup =
  address_under_test :: string
  steps :: "pydict list"
  other_addresses_under_test :: "string list option"
  target :: "string option"
  suggested_seed_seqs :: "SeedSequenceTransaction list list option"

record SeedState =
  discovery_probability_threshold :: real
  assertion_checking_mode :: int
  num_cores :: int
  analysis_setup :: AnalysisSetup

text \<open>\<open>{b["blockNumber"] for s in lesson["transactions"] for b in s}\<close>, added to the set.\<close>

fun lesson_block_numbers :: "SeedSequenceTransaction list \<Rightarrow> string list \<Rightarrow> error + string list" where
  "lesson_block_numbers [] acc = Inr acc"
| "lesson_block_numbers (b # bs) acc =
     ebind (dict_getitem b ''blockNumber'') (\<lambda>n. lesson_block_numbers bs (set_add acc n))"

fun collect_lessons ::
  "Lesson list \<Rightarrow> string list \<Rightarrow> SeedSequenceTransaction list list
   \<Rightarrow> error + (string list \<times> SeedSequenceTransaction list list)" where
  "collect_lessons [] blocks_to_skip seqs = Inr (blocks_to_skip, seqs)"
| "collect_lessons (lesson # lessons) blocks_to_skip seqs =
     ebind (lesson_block_numbers (concat (transactions lesson)) [])
       (\<lambda>ns. collect_lessons lessons (set_update blocks_to_skip ns)
                (seqs @ transactions lesson))"

definition no_transactions_message :: "RPCClient \<Rightarrow> string \<Rightarrow> string" where
  "no_transactions_message self address =
     ''Unable to generate the seed state for address '' @ address @ ''. ''
     @ ''No transactions were found in an ethereum node running at '' @ rpc_url self"

definition seed_state_failure_message :: "string \<Rightarrow> string" where
  "seed_state_failure_message address =
     ''Unable to generate the seed state for address '' @ address
     @ ''. Are you sure you passed the correct contract address?''"

fun is_click_exception :: "error \<Rightarrow> bool" where
  "is_click_exception (ClickException m) = True"
| "is_click_exception (UsageError m) = True"
| "is_click_exception (RPCCallError m) = True"
| "is_click_exception _ = False"

text \<open>An exception of the class \<open>ClickException\<close> itself, as the reports raise it.\<close>

fun plain_click_exception :: "error \<Rightarrow> bool" where
  "plain_click_exception (ClickException m) = True"
| "plain_click_exception _ = False"

text \<open>
  The body of the \<open>try\<close> of \<open>get_seed_state\<close>. The lessons
  (\<open>FuzzingLessons.get_lessons()\<close>) are a parameter. The console line printed per lesson
  is not modelled.
\<close>

definition get_seed_state_body ::
  "requests \<Rightarrow> RPCClient \<Rightarrow> Lesson list \<Rightarrow> string \<Rightarrow> string list option \<Rightarrow> string option
   \<Rightarrow> error + SeedState" where
  "get_seed_state_body net self lessons address other_addresses corpus_target =
     ebind (collect_lessons lessons [] []) (\<lambda>(blocks_to_skip, seqs).
     ebind (get_transactions net self None blocks_to_skip) (\<lambda>processed_transactions.
       if length processed_transactions = 0
       then Inl (UsageError (no_transactions_message self address))
       else Inr \<lparr> discovery_probability_threshold = 0,
                  assertion_checking_mode = 1,
                  num_cores = number_of_cores self,
                  analysis_setup =
                    \<lparr> address_under_test = address,
                      steps = processed_transactions,
                      other_addresses_under_test = other_addresses,
                      target = (case corpus_target of
                                  None \<Rightarrow> None
                                | Some t \<Rightarrow> if t = [] then None else Some t),
                      suggested_seed_seqs = (if length seqs > 0 then Some seqs else None) \<rparr> \<rparr>))"

text \<open>
  \<open>except ClickException: raise\<close> lets click's exceptions through; any other exception
  becomes the generic usage error.
\<close>

definition get_seed_state ::
  "requests \<Rightarrow> RPCClient \<Rightarrow> Lesson list \<Rightarrow> string \<Rightarrow> string list option \<Rightarrow> string option
   \<Rightarrow> error + SeedState" where
  "get_seed_state net self lessons address other_addresses corpus_target =
     (case get_seed_state_body net self lessons address other_addresses corpus_target of
        Inl e \<Rightarrow> if is_click_exception e then Inl e
                 else Inl (UsageError (seed_state_failure_message address))
      | Inr seed_state \<Rightarrow> Inr seed_state)"

section \<open>Path inclusion\<close>

text \<open>
  \<open>os.path.commonpath\<close> on POSIX, for two paths: each path is split at \<open>/\<close>, empty
  components and \<open>.\<close> are dropped, and the longest common prefix of the two component
  lists is joined again, with a leading \<open>/\<close> when the paths are absolute. Mixing an
  absolute and a relative path raises \<open>ValueError\<close>.
\<close>

fun split_on :: "char \<Rightarrow> string \<Rightarrow> string list" where
  "split_on sep [] = [[]]"
| "split_on sep (c # cs) =
     (if c = sep then [] # split_on sep cs
      else (case split_on sep cs of
              x # xs \<Rightarrow> (c # x) # xs
            | [] \<Rightarrow> [[c]]))"

definition path_components :: "string \<Rightarrow> string list" where
  "path_components p = filter (\<lambda>c. c \<noteq> [] \<and> c \<noteq> ''.'') (split_on CHR ''/'' p)"

definition is_absolute :: "string \<Rightarrow> bool" where
  "is_absolute p = (take 1 p = ''/'')"

fun common_prefix :: "'a list \<Rightarrow> 'a list \<Rightarrow> 'a list" where
  "common_prefix (x # xs) (y # ys) = (if x = y then x # common_prefix xs ys else [])"
| "common_prefix _ _ = []"

definition commonpath :: "string \<Rightarrow> string \<Rightarrow> error + string" where
  "commonpath a b =
     (if is_absolute a \<noteq> is_absolute b then Inl ValueError
      else Inr ((if is_absolute a then ''/'' else [])
                @ join ''/'' (common_prefix (path_components a) (path_components b))))"

text \<open>
  \<open>path_inclusion_checker\<close>: \<open>Path(p).is_dir()\<close> asks the file system, a parameter
  \<open>is_dir\<close>. The closure \<open>inner_checker\<close> is the function of the candidate path.
\<close>

fun dir_match :: "string \<Rightarrow> string list \<Rightarrow> error + bool" where
  "dir_match path [] = Inr False"
| "dir_match path (dir_path # dirs) =
     ebind (commonpath dir_path path)
       (\<lambda>c. if c = dir_path then Inr True else dir_match path dirs)"

definition path_inclusion_checker :: "(string \<Rightarrow> bool) \<Rightarrow> string list \<Rightarrow> string \<Rightarrow> error + bool" where
  "path_inclusion_checker is_dir paths path =
     (let directory_paths = filter is_dir paths;
          file_paths = filter (\<lambda>p. \<not> is_dir p) paths
      in if path \<in> set file_paths then Inr True
         else dir_match path directory_paths)"

section \<open>Reconciliation Engine\<close>

text \<open>
  \<open>mk_contract_address(sender, nonce, prefix)\<close> lives in another module: it is a
  parameter \<open>mk\<close>, which may raise. The artifact resolver is a parameter too: an
  \<open>IDEArtifacts\<close> gives \<open>get_contract\<close> (from deployed bytecode to contract metadata)
  and \<open>normalize_path\<close>. Contract metadata is a dict whose members read here,
  \<open>mainSourceFile\<close> and \<open>contractName\<close>, are strings or \<open>None\<close>.
\<close>

type_synonym deriver = "string \<Rightarrow> int \<Rightarrow> bool \<Rightarrow> error + string"

type_synonym Contract = "(string \<times> string option) list"

record IDEArtifacts =
  get_contract :: "json \<Rightarrow> Contract option"
  normalize_path :: "string \<Rightarrow> string"

text \<open>\<open>d.get(k, default)\<close>.\<close>

definition dict_get :: "(string \<times> 'v) list \<Rightarrow> string \<Rightarrow> 'v \<Rightarrow> 'v" where
  "dict_get d k dflt = (case map_of d k of None \<Rightarrow> dflt | Some v \<Rightarrow> v)"

text \<open>\<open>txn["from"][2:]\<close>: the slice of a string; other values are reported as \<open>TypeError\<close>.\<close>

fun from_slice :: "json \<Rightarrow> error + string" where
  "from_slice (JStr s) = Inr (drop 2 s)"
| "from_slice _ = Inl TypeError"

text \<open>The contract-creation address of one step, with the arguments in evaluation order.\<close>

definition created_address :: "deriver \<Rightarrow> pydict \<Rightarrow> error + string" where
  "created_address mk txn =
     ebind (dict_getitem txn ''from'') (\<lambda>sender_field.
     ebind (from_slice sender_field) (\<lambda>sender.
     ebind (dict_getitem txn ''nonce'') (\<lambda>nonce_field.
     ebind (py_int16 nonce_field) (\<lambda>nonce.
       mk sender nonce True))))"

fun deployed_loop :: "deriver \<Rightarrow> pydict list \<Rightarrow> string list \<Rightarrow> error + string list" where
  "deployed_loop mk [] contracts = Inr contracts"
| "deployed_loop mk (txn # txns) contracts =
     ebind (dict_getitem txn ''to'') (\<lambda>recipient.
       if truthy recipient then deployed_loop mk txns contracts
       else ebind (created_address mk txn)
              (\<lambda>a. deployed_loop mk txns (set_add contracts a)))"

definition get_all_deployed_contracts_addresses :: "deriver \<Rightarrow> SeedState \<Rightarrow> error + string list" where
  "get_all_deployed_contracts_addresses mk seed_state =
     deployed_loop mk (steps (analysis_setup seed_state)) []"

definition addresses_under_test :: "SeedState \<Rightarrow> string list" where
  "addresses_under_test seed_state =
     (let setup = analysis_setup seed_state;
          a1 = (if address_under_test setup \<noteq> [] then set_add [] (address_under_test setup) else []);
          a2 = (case other_addresses_under_test setup of
                  None \<Rightarrow> a1
                | Some others \<Rightarrow> if others \<noteq> [] then set_update a1 others else a1)
      in set_update [] (map lower a2))"

text \<open>The second loop of \<open>get_inconsistent_addresses\<close>: the bytecode of every missing target.\<close>

fun missing_loop ::
  "requests \<Rightarrow> RPCClient \<Rightarrow> string list \<Rightarrow> string list \<Rightarrow> (string \<times> json) list
   \<Rightarrow> error + (string \<times> json) list" where
  "missing_loop net self target_addresses [] missing = Inr missing"
| "missing_loop net self target_addresses (contract_address # rest) missing =
     (if contract_address \<notin> set target_addresses
      then ebind (run_rpc (get_code net self contract_address))
             (\<lambda>code. missing_loop net self target_addresses rest
                        (dict_setitem missing contract_address code))
      else missing_loop net self target_addresses rest missing)"

definition get_inconsistent_addresses ::
  "deriver \<Rightarrow> requests \<Rightarrow> RPCClient \<Rightarrow> SeedState \<Rightarrow> error + ((string \<times> json) list \<times> string list)" where
  "get_inconsistent_addresses mk net self seed_state =
     ebind (get_all_deployed_contracts_addresses mk seed_state) (\<lambda>deployed_contracts_addresses.
       let target_addresses = addresses_under_test seed_state;
           unknown_target_addresses =
             filter (\<lambda>target_address. target_address \<notin> set deployed_contracts_addresses)
               target_addresses
       in ebind (missing_loop net self target_addresses deployed_contracts_addresses [])
            (\<lambda>missing_target_addresses. Inr (missing_target_addresses, unknown_target_addresses)))"

text \<open>
  \<open>get_contract_by_address\<close>: \<open>not contract\<close> holds for \<open>None\<close> and for an empty dict.
\<close>

definition get_contract_by_address ::
  "requests \<Rightarrow> RPCClient \<Rightarrow> string \<Rightarrow> IDEArtifacts \<Rightarrow> error + Contract option" where
  "get_contract_by_address net self contract_address artifacts =
     ebind (run_rpc (get_code net self contract_address)) (\<lambda>deployed_bytecode.
       if deployed_bytecode = JNull then Inr None
       else (case get_contract artifacts deployed_bytecode of
               None \<Rightarrow> Inr None
             | Some contract \<Rightarrow>
                 if contract = [] \<or> dict_get contract ''mainSourceFile'' None = None
                 then Inr None
                 else Inr (Some contract)))"

definition smart_mode_warning :: string where
  "smart_mode_warning =
     ''Warning: Smart mode is on, but targets and addresses under test are provided. ''
     @ ''Consider turning off smart mode, so that the targets and addresses under test won'' @ [CHR 0x27]
     @ ''t be automatically derived from the seed state.''"

definition no_targets_message :: string where
  "no_targets_message =
     ''No targets nor addresses under test are provided. ''
     @ ''Please turn on smart mode or provide targets and addresses under test.''"

text \<open>
  The loop of \<open>smart_mode_setup\<close> that adds the main source file of every resolvable
  contract. \<open>contract["mainSourceFile"]\<close> is a string there: \<open>get_contract_by_address\<close>
  returns no contract without one.
\<close>

fun derive_targets ::
  "requests \<Rightarrow> RPCClient \<Rightarrow> IDEArtifacts \<Rightarrow> string list \<Rightarrow> string list \<Rightarrow> error + string list" where
  "derive_targets net self artifacts [] targets = Inr targets"
| "derive_targets net self artifacts (contract_address # rest) targets =
     ebind (get_contract_by_address net self contract_address artifacts) (\<lambda>contract.
       case contract of
         None \<Rightarrow> derive_targets net self artifacts rest targets
       | Some c \<Rightarrow>
           if c = [] then derive_targets net self artifacts rest targets
           else ebind (dict_getitem c ''mainSourceFile'') (\<lambda>f.
                  case f of
                    None \<Rightarrow> Inl TypeError
                  | Some source_file \<Rightarrow>
                      derive_targets net self artifacts rest (set_add targets source_file)))"

text \<open>
  The functions of the pipeline return what they print with \<open>click.secho\<close> next to their
  result.
\<close>

definition smart_mode_setup ::
  "deriver \<Rightarrow> requests \<Rightarrow> RPCClient \<Rightarrow> bool \<Rightarrow> SeedState \<Rightarrow> string list option \<Rightarrow> IDEArtifacts
   \<Rightarrow> (error + (string list \<times> string list)) \<times> string list" where
  "smart_mode_setup mk net self smart_mode seed_state source_targets artifacts =
     (let auts = addresses_under_test seed_state;
          given = (case source_targets of None \<Rightarrow> [] | Some ts \<Rightarrow> ts);
          printed = (if smart_mode \<and> auts \<noteq> [] \<and> given \<noteq> [] then [smart_mode_warning] else [])
      in if \<not> smart_mode \<and> (auts = [] \<or> given = [])
         then (Inl (ClickException no_targets_message), printed)
         else
           (ebind (if auts = [] then get_all_deployed_contracts_addresses mk seed_state
                   else Inr auts) (\<lambda>auts'.
            ebind (if given = [] then derive_targets net self artifacts auts' (set_update [] given)
                   else Inr (set_update [] given)) (\<lambda>targets.
              Inr (auts', targets))),
            printed))"

text \<open>The first loop of \<open>collect_mismatched_targets\<close>.\<close>

fun resolve_missing ::
  "requests \<Rightarrow> RPCClient \<Rightarrow> IDEArtifacts \<Rightarrow> (string \<times> json) list
   \<Rightarrow> (string \<times> string option \<times> string option) list
   \<Rightarrow> error + (string \<times> string option \<times> string option) list" where
  "resolve_missing net self artifacts [] resolved = Inr resolved"
| "resolve_missing net self artifacts ((contract_address, deployed_bytecode) # rest) resolved =
     ebind (get_contract_by_address net self contract_address artifacts) (\<lambda>contract.
       resolve_missing net self artifacts rest
         (resolved @
          [(contract_address,
            (case contract of
               None \<Rightarrow> Some ''null''
             | Some c \<Rightarrow> if c = [] then Some ''null''
                         else dict_get c ''mainSourceFile'' (Some ''null'')),
            (case contract of
               None \<Rightarrow> Some ''null''
             | Some c \<Rightarrow> if c = [] then Some ''null''
                         else dict_get c ''contractName'' (Some ''null'')))]))"

text \<open>The second loop: \<open>source_file in source_targets\<close> needs a string.\<close>

fun mismatched_loop ::
  "string list \<Rightarrow> (string \<times> string option \<times> string option) list \<Rightarrow> (string \<times> string) list
   \<Rightarrow> (string \<times> string) list" where
  "mismatched_loop source_targets [] mismatched = mismatched"
| "mismatched_loop source_targets (t # ts) mismatched =
     (case fst (snd t) of
        None \<Rightarrow> mismatched_loop source_targets ts mismatched
      | Some source_file \<Rightarrow>
          if source_file = ''null'' then mismatched_loop source_targets ts mismatched
          else if source_file \<in> set source_targets
          then mismatched_loop source_targets ts (mismatched @ [(source_file, fst t)])
          else mismatched_loop source_targets ts mismatched)"

definition collect_mismatched_targets ::
  "requests \<Rightarrow> RPCClient \<Rightarrow> (string \<times> json) list \<Rightarrow> IDEArtifacts \<Rightarrow> string list
   \<Rightarrow> error + ((string \<times> string) list \<times> (string \<times> string option \<times> string option) list)" where
  "collect_mismatched_targets net self missing_target_addresses artifacts source_targets =
     ebind (resolve_missing net self artifacts missing_target_addresses [])
       (\<lambda>missing_targets_resolved.
          Inr (mismatched_loop source_targets missing_targets_resolved [],
               missing_targets_resolved))"

fun dangling_loop ::
  "(string \<Rightarrow> bool) \<Rightarrow> requests \<Rightarrow> RPCClient \<Rightarrow> IDEArtifacts \<Rightarrow> string list \<Rightarrow> string list
   \<Rightarrow> (string option \<times> string) list \<Rightarrow> error + (string option \<times> string) list" where
  "dangling_loop is_dir net self artifacts source_targets [] dangling = Inr dangling"
| "dangling_loop is_dir net self artifacts source_targets (contract_address # rest) dangling =
     ebind (get_contract_by_address net self contract_address artifacts) (\<lambda>contract.
       case contract of
         None \<Rightarrow>
           dangling_loop is_dir net self artifacts source_targets rest
             (dangling @ [(None, contract_address)])
       | Some c \<Rightarrow>
           ebind (case dict_get c ''mainSourceFile'' None of
                    None \<Rightarrow> Inr True
                  | Some _ \<Rightarrow>
                      ebind (dict_getitem c ''mainSourceFile'') (\<lambda>f.
                        case f of
                          None \<Rightarrow> Inl TypeError
                        | Some source_file \<Rightarrow>
                            ebind (path_inclusion_checker is_dir source_targets
                                     (normalize_path artifacts source_file))
                              (\<lambda>included. Inr (\<not> included)))) (\<lambda>is_dangling.
             if is_dangling
             then dangling_loop is_dir net self artifacts source_targets rest
                    (dangling @ [(dict_get c ''mainSourceFile'' None, contract_address)])
             else dangling_loop is_dir net self artifacts source_targets rest dangling))"

definition collect_dangling_contracts ::
  "(string \<Rightarrow> bool) \<Rightarrow> requests \<Rightarrow> RPCClient \<Rightarrow> string list \<Rightarrow> IDEArtifacts \<Rightarrow> string list
   \<Rightarrow> error + (string option \<times> string) list" where
  "collect_dangling_contracts is_dir net self auts artifacts source_targets =
     dangling_loop is_dir net self artifacts source_targets auts []"

subsection \<open>The reports\<close>

text \<open>The bullet and the warning sign of the messages, as UTF-8 bytes.\<close>

definition bullet :: string where
  "bullet = [CHR 0xE2, CHR 0x97, CHR 0xA6]"

definition warning_sign :: string where
  "warning_sign = [CHR 0xE2, CHR 0x9A, CHR 0xA0, CHR 0xEF, CHR 0xB8, CHR 0x8F]"

text \<open>\<open>str(x)\<close> of an optional string inside an f-string.\<close>

definition str_opt :: "string option \<Rightarrow> string" where
  "str_opt x = (case x of None \<Rightarrow> ''None'' | Some s \<Rightarrow> s)"

definition handle_unknown_target_addresses :: "string list \<Rightarrow> error" where
  "handle_unknown_target_addresses unknown_target_addresses =
     ClickException (''Unable to find contracts deployed at '' @ join '', '' unknown_target_addresses)"

definition handle_mismatched_targets :: "(string \<times> string) list \<Rightarrow> error" where
  "handle_mismatched_targets mismatched_targets =
     ClickException
       (''Found contracts deployed at the following addresses ''
        @ ''but they are not marked as addresses under test: '' @ [CHR 0x0A]
        @ join [CHR 0x0A]
            (map (\<lambda>(t, a). ''  '' @ bullet @ '' Target: '' @ t @ '' Address: '' @ a)
               mismatched_targets))"

definition handle_dangling_contracts :: "(string option \<times> string) list \<Rightarrow> error" where
  "handle_dangling_contracts dangling_contract_targets =
     ClickException
       (''Found contracts marked as addresses under test but their source files ''
        @ ''were not provided as targets: '' @ [CHR 0x0A]
        @ join [CHR 0x0A]
            (map (\<lambda>(t, a). ''  '' @ bullet @ '' Address: '' @ a @ '' Target: '' @ str_opt t)
               dangling_contract_targets))"

definition handle_missing_target_addresses ::
  "(string \<times> string option \<times> string option) list \<Rightarrow> string" where
  "handle_missing_target_addresses missing_targets_resolved =
     warning_sign
     @ '' Following contracts were not marked as targets but were deployed to RPC node:''
     @ [CHR 0x0A]
     @ join [CHR 0x0A]
         (map (\<lambda>t. ''  '' @ bullet @ '' Address: '' @ fst t @ '' Source File: ''
                    @ str_opt (fst (snd t)) @ '' Contract Name: '' @ str_opt (snd (snd t)))
            missing_targets_resolved)"

subsection \<open>\<open>check_contracts\<close>\<close>

text \<open>
  The body of the \<open>try\<close>: the stages after smart-mode resolution. The acknowledgement is
  printed between the mismatched-target check and the dangling-contract check.
\<close>

definition check_stages ::
  "(string \<Rightarrow> bool) \<Rightarrow> deriver \<Rightarrow> requests \<Rightarrow> RPCClient \<Rightarrow> SeedState \<Rightarrow> IDEArtifacts
   \<Rightarrow> string list \<Rightarrow> string list \<Rightarrow> (error + unit) \<times> string list" where
  "check_stages is_dir mk net self seed_state artifacts processed_addresses_under_test
     processed_source_targets =
     (case get_inconsistent_addresses mk net self seed_state of
        Inl e \<Rightarrow> (Inl e, [])
      | Inr (missing_target_addresses, unknown_target_addresses) \<Rightarrow>
          if unknown_target_addresses \<noteq> []
          then (Inl (handle_unknown_target_addresses unknown_target_addresses), [])
          else
            (case collect_mismatched_targets net self missing_target_addresses artifacts
                    processed_source_targets of
               Inl e \<Rightarrow> (Inl e, [])
             | Inr (mismatched_targets, missing_targets_resolved) \<Rightarrow>
                 if mismatched_targets \<noteq> []
                 then (Inl (handle_mismatched_targets mismatched_targets), [])
                 else
                   (let printed =
                          (if missing_targets_resolved \<noteq> []
                           then [handle_missing_target_addresses missing_targets_resolved]
                           else [])
                    in case collect_dangling_contracts is_dir net self
                              processed_addresses_under_test artifacts processed_source_targets of
                         Inl e \<Rightarrow> (Inl e, printed)
                       | Inr dangling_contract_targets \<Rightarrow>
                           if dangling_contract_targets \<noteq> []
                           then (Inl (handle_dangling_contracts dangling_contract_targets), printed)
                           else (Inr (), printed))))"

text \<open>
  \<open>check_contracts\<close>: smart-mode resolution runs before the \<open>try\<close>; inside it an
  \<open>RPCCallError\<close> becomes a \<open>UsageError\<close> with the same text.
\<close>

definition check_contracts ::
  "(string \<Rightarrow> bool) \<Rightarrow> deriver \<Rightarrow> requests \<Rightarrow> RPCClient \<Rightarrow> SeedState \<Rightarrow> IDEArtifacts
   \<Rightarrow> string list option \<Rightarrow> bool \<Rightarrow> (error + unit) \<times> string list" where
  "check_contracts is_dir mk net self seed_state artifacts source_targets smart_mode =
     (case smart_mode_setup mk net self smart_mode seed_state source_targets artifacts of
        (Inl e, printed) \<Rightarrow> (Inl e, printed)
      | (Inr (processed_addresses_under_test, targets), printed) \<Rightarrow>
          (let processed_source_targets = map (normalize_path artifacts) targets
           in case check_stages is_dir mk net self seed_state artifacts
                     processed_addresses_under_test processed_source_targets of
                (Inl (RPCCallError m), printed') \<Rightarrow> (Inl (UsageError m), printed @ printed')
              | (r, printed') \<Rightarrow> (r, printed @ printed')))"

section \<open>What the collector and the engine are expected to compute\<close>

text \<open>
  The descriptions the theorems compare the code with. A block is well formed when it is
  an object with a string \<open>number\<close>, the four members copied into its transactions, and
  a list of transaction objects.
\<close>

definition member :: "json \<Rightarrow> string \<Rightarrow> json" where
  "member b k = (case getitem b k of Inr v \<Rightarrow> v | Inl e \<Rightarrow> JNull)"

fun has_member :: "json \<Rightarrow> string \<Rightarrow> bool" where
  "has_member (JObj d) k = (k \<in> fst ` set d)"
| "has_member _ k = False"

fun is_object :: "json \<Rightarrow> bool" where
  "is_object (JObj d) = True"
| "is_object _ = False"

fun is_string :: "json \<Rightarrow> bool" where
  "is_string (JStr s) = True"
| "is_string _ = False"

fun object_of :: "json \<Rightarrow> pydict" where
  "object_of (JObj d) = d"
| "object_of _ = []"

fun elements_of :: "json \<Rightarrow> json list" where
  "elements_of (JArr xs) = xs"
| "elements_of _ = []"

fun is_object_list :: "json \<Rightarrow> bool" where
  "is_object_list (JArr xs) = list_all is_object xs"
| "is_object_list _ = False"

definition well_formed_block :: "json \<Rightarrow> bool" where
  "well_formed_block b =
     (is_string (member b ''number'') \<and> has_member b ''miner'' \<and> has_member b ''difficulty''
      \<and> has_member b ''gasLimit'' \<and> has_member b ''timestamp''
      \<and> is_object_list (member b ''transactions''))"

definition block_transactions :: "json \<Rightarrow> pydict list" where
  "block_transactions b = map object_of (elements_of (member b ''transactions''))"

definition block_skipped :: "string list \<Rightarrow> json \<Rightarrow> bool" where
  "block_skipped skip b = in_skip_list (member b ''number'') skip"

text \<open>
  A transaction enriched with the members of its block: nulls become empty strings, then
  the four block members are stored.
\<close>

definition enriched :: "json \<Rightarrow> pydict \<Rightarrow> pydict" where
  "enriched b transaction =
     dict_update (normalize_nulls transaction)
       [(''blockCoinbase'', member b ''miner''), (''blockDifficulty'', member b ''difficulty''),
        (''blockGasLimit'', member b ''gasLimit''), (''blockTimestamp'', member b ''timestamp'')]"

definition enrichment_keys :: "string set" where
  "enrichment_keys = {''blockCoinbase'', ''blockDifficulty'', ''blockGasLimit'', ''blockTimestamp''}"

definition collected_transactions :: "string list \<Rightarrow> json list \<Rightarrow> pydict list" where
  "collected_transactions skip bs =
     concat (map (\<lambda>b. map (enriched b) (block_transactions b))
               (filter (\<lambda>b. \<not> block_skipped skip b) bs))"

text \<open>
  A step is a contract creation when its recipient is empty; the addresses the user
  declared, before they are lowercased.
\<close>

definition has_recipient :: "pydict \<Rightarrow> bool" where
  "has_recipient txn = (case map_of txn ''to'' of None \<Rightarrow> False | Some r \<Rightarrow> truthy r)"

definition is_contract_creation :: "pydict \<Rightarrow> bool" where
  "is_contract_creation txn = (case map_of txn ''to'' of None \<Rightarrow> False | Some r \<Rightarrow> \<not> truthy r)"

definition null_to_empty :: "json \<Rightarrow> json" where
  "null_to_empty v = (if v = JNull then JStr [] else v)"

definition declared_addresses :: "SeedState \<Rightarrow> string set" where
  "declared_addresses seed_state =
     (if address_under_test (analysis_setup seed_state) \<noteq> []
      then {address_under_test (analysis_setup seed_state)} else {})
     \<union> (case other_addresses_under_test (analysis_setup seed_state) of
          None \<Rightarrow> {}
        | Some others \<Rightarrow> set others)"

text \<open>
  The source-file and contract-name fields of an entry of the resolved missing targets,
  from the contract that was resolved for the address: the sentinel \<open>null\<close> stands for
  a contract that did not resolve and for a member that the metadata does not have.
\<close>

definition source_file_field :: "Contract option \<Rightarrow> string option" where
  "source_file_field contract =
     (case contract of
        None \<Rightarrow> Some ''null''
      | Some c \<Rightarrow> if c = [] then Some ''null'' else dict_get c ''mainSourceFile'' (Some ''null''))"

definition contract_name_field :: "Contract option \<Rightarrow> string option" where
  "contract_name_field contract =
     (case contract of
        None \<Rightarrow> Some ''null''
      | Some c \<Rightarrow> if c = [] then Some ''null'' else dict_get c ''contractName'' (Some ''null''))"

text \<open>
  Components as \<open>commonpath\<close> keeps them: not empty, not \<open>.\<close>, without a separator.
  The prefix that \<open>commonpath\<close> puts before the joined components.
\<close>

definition proper_components :: "string list \<Rightarrow> bool" where
  "proper_components cs = list_all (\<lambda>c. c \<noteq> [] \<and> c \<noteq> ''.'' \<and> CHR ''/'' \<notin> set c) cs"


text \<open>A result that is not a plain \<open>ClickException\<close>: a value, or an exception of another class.\<close>

definition no_click_exception :: "error + 'a \<Rightarrow> bool" where
  "no_click_exception r = (case r of Inl e \<Rightarrow> \<not> plain_click_exception e | Inr x \<Rightarrow> True)"

definition unknown_target_prefix :: string where
  "unknown_target_prefix = ''Unable to find contracts deployed at ''"

section \<open>Example inputs\<close>

text \<open>
  A client, and a node that holds \<open>height\<close> blocks without transactions: it answers
  \<open>eth_getBlockByNumber\<close> for \<open>latest\<close> and for a block number, and reports the code
  \<open>0x\<close> for every address.
\<close>

definition example_client :: RPCClient where
  "example_client = \<lparr> rpc_url = ''http://localhost:7545'', number_of_cores = 1 \<rparr>"

definition example_block :: "nat \<Rightarrow> json list \<Rightarrow> json" where
  "example_block n txs =
     JObj [(''number'', JStr (hex (int n))), (''miner'', JStr ''0x00''),
           (''difficulty'', JStr ''0x0''), (''gasLimit'', JStr ''0x6691b7''),
           (''timestamp'', JStr ''0x5f''), (''transactions'', JArr txs)]"

definition result_body :: "json \<Rightarrow> http_outcome" where
  "result_body r = Body (JObj [(''jsonrpc'', JStr ''2.0''), (''id'', JInt 1), (''result'', r)])"

definition empty_chain_node :: "nat \<Rightarrow> requests" where
  "empty_chain_node height url payload =
     (case (getitem payload ''method'', getitem payload ''params'') of
        (Inr (JStr m), Inr (JArr (JStr p # _))) \<Rightarrow>
          if m = ''eth_getCode'' then result_body (JStr ''0x'')
          else if m \<noteq> ''eth_getBlockByNumber'' \<or> height = 0 then result_body JNull
          else if p = ''latest'' then result_body (example_block (height - 1) [])
          else (case int_of_hex p of
                  None \<Rightarrow> result_body JNull
                | Some i \<Rightarrow>
                    if 0 \<le> i \<and> i < int height then result_body (example_block (nat i) [])
                    else result_body JNull)
      | _ \<Rightarrow> result_body JNull)"

text \<open>
  A node that holds the given blocks and the given code per address; a creation
  transaction from \<open>0xaa..aa\<close> with nonce \<open>0x0\<close>; the address derived from it; an
  artifact resolver that knows one contract; a file system without directories.
\<close>

definition chain_node :: "json list \<Rightarrow> (string \<times> string) list \<Rightarrow> requests" where
  "chain_node blocks codes url payload =
     (case (getitem payload ''method'', getitem payload ''params'') of
        (Inr (JStr m), Inr (JArr (JStr p # _))) \<Rightarrow>
          if m = ''eth_getCode''
          then result_body (case map_of codes p of None \<Rightarrow> JStr ''0x'' | Some c \<Rightarrow> JStr c)
          else if m \<noteq> ''eth_getBlockByNumber'' \<or> blocks = [] then result_body JNull
          else if p = ''latest'' then result_body (last blocks)
          else (case int_of_hex p of
                  None \<Rightarrow> result_body JNull
                | Some i \<Rightarrow>
                    if 0 \<le> i \<and> i < int (length blocks) then result_body (blocks ! nat i)
                    else result_body JNull)
      | _ \<Rightarrow> result_body JNull)"

definition example_sender :: string where
  "example_sender = ''0xaaaaaaaaaaaaaaaaaaaaaaaaaaaaaaaaaaaaaaaa''"

definition example_creation :: pydict where
  "example_creation =
     [(''hash'', JStr ''0x01''), (''nonce'', JStr ''0x0''), (''from'', JStr example_sender),
      (''to'', JNull), (''input'', JStr ''0x6080604052'')]"

definition example_created_address :: string where
  "example_created_address = ''0x3c952d36207c0d52743a646e7ac2649009bd358e''"

definition example_second_address :: string where
  "example_second_address = ''0x4501f8fa1e67827ebfb1f6d5510c606871c5a599''"

text \<open>
  The deriver, tabulated for the example sender at the nonces 0 and 1 (the addresses are
  the ones of the chain's rule); it raises elsewhere.
\<close>

definition example_deriver :: deriver where
  "example_deriver sender nonce prefix =
     (if sender = drop 2 example_sender \<and> nonce = 0
      then Inr (if prefix then example_created_address else drop 2 example_created_address)
      else if sender = drop 2 example_sender \<and> nonce = 1
      then Inr (if prefix then example_second_address else drop 2 example_second_address)
      else Inl ValueError)"

definition example_second_creation :: pydict where
  "example_second_creation =
     [(''hash'', JStr ''0x03''), (''nonce'', JStr ''0x1''), (''from'', JStr example_sender),
      (''to'', JStr []), (''input'', JStr ''0x6080604052'')]"

definition example_source_file :: string where
  "example_source_file = ''/project/contracts/Foo.sol''"

definition example_artifacts :: IDEArtifacts where
  "example_artifacts =
     \<lparr> get_contract =
         (\<lambda>code. if code = JStr ''0x6080''
                  then Some [(''mainSourceFile'', Some example_source_file),
                             (''contractName'', Some ''Foo'')]
                  else None),
       normalize_path = (\<lambda>p. if is_absolute p then p else ''/project/'' @ p) \<rparr>"

text \<open>A resolver whose contract has a main source file relative to the project.\<close>

definition relative_source_artifacts :: IDEArtifacts where
  "relative_source_artifacts =
     \<lparr> get_contract =
         (\<lambda>code. if code = JStr ''0x6080''
                  then Some [(''mainSourceFile'', Some ''contracts/Foo.sol''),
                             (''contractName'', Some ''Foo'')]
                  else None),
       normalize_path = (\<lambda>p. if is_absolute p then p else ''/project/'' @ p) \<rparr>"

text \<open>A resolver whose contract has the literal path \<open>null\<close> as its main source file.\<close>

definition null_source_artifacts :: IDEArtifacts where
  "null_source_artifacts =
     \<lparr> get_contract =
         (\<lambda>code. if code = JStr ''0x60''
                  then Some [(''mainSourceFile'', Some ''null''), (''contractName'', Some ''Token'')]
                  else None),
       normalize_path = (\<lambda>p. p) \<rparr>"



definition no_directories :: "string \<Rightarrow> bool" where
  "no_directories p = False"

definition example_seed_state :: "string \<Rightarrow> string list option \<Rightarrow> pydict list \<Rightarrow> SeedState" where
  "example_seed_state address others txs =
     \<lparr> discovery_probability_threshold = 0, assertion_checking_mode = 1, num_cores = 1,
       analysis_setup =
         \<lparr> address_under_test = address, steps = txs, other_addresses_under_test = others,
           target = None, suggested_seed_seqs = None \<rparr> \<rparr>"

section \<open>Basic facts\<close>

lemma ebind_Inl [simp]: "ebind (Inl e) f = Inl e"
  by (simp add: ebind_def)

lemma ebind_Inr [simp]: "ebind (Inr x) f = f x"
  by (simp add: ebind_def)

lemma ebind_eq_Inr: "(ebind m f = Inr y) = (\<exists>x. m = Inr x \<and> f x = Inr y)"
  by (cases m) simp_all

lemma set_set_add [simp]: "set (set_add s x) = insert x (set s)"
  by (auto simp: set_add_def)

lemma set_set_update [simp]: "set (set_update s xs) = set s \<union> set xs"
  unfolding set_update_def by (induction xs arbitrary: s) auto

lemma distinct_set_add: "distinct s \<Longrightarrow> distinct (set_add s x)"
  by (simp add: set_add_def)

lemma map_of_dict_setitem [simp]: "map_of (dict_setitem d k v) = (map_of d)(k \<mapsto> v)"
  by (induction d) (auto simp: fun_eq_iff)

lemma keys_dict_setitem [simp]: "fst ` set (dict_setitem d k v) = insert k (fst ` set d)"
proof -
  have "dom (map_of (dict_setitem d k v)) = insert k (dom (map_of d))" by simp
  then show ?thesis by (simp only: dom_map_of_conv_image_fst)
qed

section \<open>Chain Reader: the requests sent and the scan bound\<close>

text \<open>The answer to a request does not depend on what was sent before.\<close>

lemma call_result_snapshot: "fst (call net self m ps sent) = fst (call net self m ps [])"
  by (simp add: call_def)

lemma call_sent: "snd (call net self m ps sent) = sent @ [(m, ps)]"
  by (simp add: call_def)

lemma call_not_click: "fst (call net self m ps sent) = Inl e \<Longrightarrow> \<not> plain_click_exception e"
  by (auto simp: call_def split: http_outcome.splits json.splits)

lemma get_block_not_click:
  "fst (get_block net self latest n sent) = Inl e \<Longrightarrow> \<not> plain_click_exception e"
  unfolding get_block_def Let_def by (rule call_not_click)

lemma get_block_sent:
  "snd (get_block net self latest n sent) =
     sent @ [(''eth_getBlockByNumber'', [PStr (if latest then ''latest'' else hex n), PBool True])]"
  by (simp add: get_block_def call_sent)

lemma get_latest_block_number_sent:
  "snd (get_latest_block_number net self sent) =
     sent @ [(''eth_getBlockByNumber'', [PStr ''latest'', PBool True])]"
  by (simp add: get_latest_block_number_def rpc_bind_def rpc_return_def rpc_lift_def
      get_block_def call_def split: prod.splits sum.splits)

text \<open>The loop sends one request per iteration and stops at the first failure.\<close>

lemma fetch_blocks_sent:
  "length (snd (fetch_blocks net self i k blocks sent)) \<le> length sent + k"
proof (induction k arbitrary: i blocks sent)
  case 0
  show ?case by (simp add: rpc_return_def)
next
  case (Suc k)
  obtain r s where gb: "get_block net self False (int i) sent = (r, s)"
    by (cases "get_block net self False (int i) sent")
  have s: "length s = Suc (length sent)"
    using get_block_sent [of net self False "int i" sent] gb by simp
  show ?case
  proof (cases r)
    case (Inl e)
    with gb s show ?thesis by (simp add: rpc_bind_def)
  next
    case (Inr b)
    with gb s Suc.IH [of "Suc i" "blocks @ [b]" s] show ?thesis
      by (simp add: rpc_bind_def)
  qed
qed

lemma fetch_blocks_length:
  "fst (fetch_blocks net self i k blocks sent) = Inr bs \<Longrightarrow> length bs = length blocks + k"
proof (induction k arbitrary: i blocks sent)
  case 0
  then show ?case by (simp add: rpc_return_def)
next
  case (Suc k)
  obtain r s where gb: "get_block net self False (int i) sent = (r, s)"
    by (cases "get_block net self False (int i) sent")
  show ?case
  proof (cases r)
    case (Inl e)
    with gb Suc.prems show ?thesis by (simp add: rpc_bind_def)
  next
    case (Inr b)
    with gb Suc.prems have "fst (fetch_blocks net self (Suc i) k (blocks @ [b]) s) = Inr bs"
      by (simp add: rpc_bind_def)
    from Suc.IH [OF this] show ?thesis by simp
  qed
qed

lemma fetch_blocks_not_click:
  "fst (fetch_blocks net self i k blocks sent) = Inl e \<Longrightarrow> \<not> plain_click_exception e"
proof (induction k arbitrary: i blocks sent)
  case 0
  then show ?case by (simp add: rpc_return_def)
next
  case (Suc k)
  obtain r s where gb: "get_block net self False (int i) sent = (r, s)"
    by (cases "get_block net self False (int i) sent")
  show ?case
  proof (cases r)
    case (Inl e')
    with gb Suc.prems have "e' = e" by (simp add: rpc_bind_def)
    with Inl gb get_block_not_click [of net self False "int i" sent e] show ?thesis by simp
  next
    case (Inr b)
    with gb Suc.prems have "fst (fetch_blocks net self (Suc i) k (blocks @ [b]) s) = Inl e"
      by (simp add: rpc_bind_def)
    from Suc.IH [OF this] show ?thesis .
  qed
qed

text \<open>
  When the node reports a latest block number \<open>n\<close> with \<open>n + 1 > 9999\<close>, the scan-bound
  error is raised after the single request for the latest block.
\<close>

lemma get_all_blocks_over_limit:
  assumes "fst (get_latest_block_number net self sent) = Inr n" and "n + 1 > 9999"
  shows "get_all_blocks net self sent =
           (Inl (ClickException (scan_bound_message self)),
            sent @ [(''eth_getBlockByNumber'', [PStr ''latest'', PBool True])])"
proof -
  obtain r s where g: "get_latest_block_number net self sent = (r, s)"
    by (cases "get_latest_block_number net self sent")
  with assms(1) have r: "r = Inr n" by simp
  from g get_latest_block_number_sent [of net self sent]
  have s: "s = sent @ [(''eth_getBlockByNumber'', [PStr ''latest'', PBool True])]" by simp
  from assms(2) show ?thesis
    by (simp add: get_all_blocks_def rpc_bind_def g r s rpc_raise_def NUM_BLOCKS_UPPER_LIMIT_def)
qed

text \<open>
  When \<open>n + 1\<close> is at most 9999, the scan-bound error is not raised, at most \<open>n + 2\<close>
  requests are sent, and a list that is returned has \<open>n + 1\<close> blocks.
\<close>

lemma get_all_blocks_within_limit:
  assumes "fst (get_latest_block_number net self []) = Inr n" and "0 \<le> n" and "n + 1 \<le> 9999"
  shows "fst (get_all_blocks net self []) \<noteq> Inl (ClickException (scan_bound_message self))"
    and "length (snd (get_all_blocks net self [])) \<le> nat n + 2"
    and "fst (get_all_blocks net self []) = Inr bs \<Longrightarrow> length bs = nat n + 1"
proof -
  obtain r s where g: "get_latest_block_number net self [] = (r, s)"
    by (cases "get_latest_block_number net self []")
  with assms(1) have r: "r = Inr n" by simp
  from g get_latest_block_number_sent [of net self "[]"]
  have s: "length s = 1" by simp
  have eq: "get_all_blocks net self [] = fetch_blocks net self 0 (nat (n + 1)) [] s"
    using assms(2,3)
    by (simp add: get_all_blocks_def rpc_bind_def g r NUM_BLOCKS_UPPER_LIMIT_def)
  show "fst (get_all_blocks net self []) \<noteq> Inl (ClickException (scan_bound_message self))"
    using fetch_blocks_not_click [of net self 0 "nat (n + 1)" "[]" s
        "ClickException (scan_bound_message self)"] eq by auto
  show "length (snd (get_all_blocks net self [])) \<le> nat n + 2"
    using fetch_blocks_sent [of net self 0 "nat (n + 1)" "[]" s] eq s assms(2)
    by (simp add: nat_add_distrib)
  show "fst (get_all_blocks net self []) = Inr bs \<Longrightarrow> length bs = nat n + 1"
    using fetch_blocks_length [of net self 0 "nat (n + 1)" "[]" s bs] eq assms(2)
    by (simp add: nat_add_distrib)
qed

lemma hex_9999: "hex 9999 = ''0x270f''"
  by (simp add: hex_def hex_digits.simps hex_char_def)

lemma int_of_hex_270f: "int_of_hex ''0x270f'' = Some 9999"
  by (simp add: int_of_hex_def strip_def is_space_def split_sign_def strip_hex_prefix_def
      hex_digit_val_def)

text \<open>
  Claim C1. The docstring of \<open>get_all_blocks\<close> and the text of its error promise that a
  chain may have up to 10000 blocks. On a node that holds exactly 10000 blocks (the
  latest one is number \<open>0x270f\<close>) the function raises the scan-bound error after the
  request for the latest block, and returns no block list.
\<close>

theorem get_all_blocks_ten_thousand_blocks:
  "get_all_blocks (empty_chain_node 10000) example_client [] =
     (Inl (ClickException (scan_bound_message example_client)),
      [(''eth_getBlockByNumber'', [PStr ''latest'', PBool True])])"
  by (simp add: get_all_blocks_def get_latest_block_number_def get_block_def call_def
      rpc_bind_def rpc_return_def rpc_raise_def rpc_lift_def empty_chain_node_def
      example_client_def rpc_payload_def result_body_def example_block_def dict_getitem_def
      hex_9999 int_of_hex_270f NUM_BLOCKS_UPPER_LIMIT_def)

text \<open>
  Claim C8. When the node answers \<open>eth_getCode\<close> for an address, \<open>get_code\<close> returns
  \<open>None\<close> if the reported value is the string \<open>0x\<close>, and the reported value unchanged
  otherwise; it never returns the string \<open>0x\<close>.
\<close>

theorem get_code_no_code_sentinel:
  assumes "net (rpc_url self) (rpc_payload ''eth_getCode'' [PStr a, PStr ''latest''])
             = Body (JObj response)"
    and "map_of response ''result'' = Some reported"
  shows "run_rpc (get_code net self a) = Inr (if reported = JStr ''0x'' then JNull else reported)
         \<and> run_rpc (get_code net self a) \<noteq> Inr (JStr ''0x'')"
  using assms by (simp add: run_rpc_def get_code_def rpc_bind_def call_def rpc_return_def)

theorem get_code_no_code_sentinel_witness:
  "run_rpc (get_code (chain_node [] [(''0xcc'', ''0x6080'')]) example_client ''0xbb'') = Inr JNull
   \<and> run_rpc (get_code (chain_node [] [(''0xcc'', ''0x6080'')]) example_client ''0xcc'')
       = Inr (JStr ''0x6080'')"
  using get_code_no_code_sentinel [of "chain_node [] [(''0xcc'', ''0x6080'')]" example_client
      "''0xbb''" "[(''jsonrpc'', JStr ''2.0''), (''id'', JInt 1), (''result'', JStr ''0x'')]"
      "JStr ''0x''"]
    get_code_no_code_sentinel [of "chain_node [] [(''0xcc'', ''0x6080'')]" example_client
      "''0xcc''" "[(''jsonrpc'', JStr ''2.0''), (''id'', JInt 1), (''result'', JStr ''0x6080'')]"
      "JStr ''0x6080''"]
  by (simp add: chain_node_def rpc_payload_def result_body_def dict_getitem_def)

section \<open>Transaction Collector\<close>

lemma getitem_member: "member b k \<noteq> JNull \<Longrightarrow> getitem b k = Inr (member b k)"
  by (cases "getitem b k") (simp_all add: member_def)

lemma getitem_has_member: "has_member b k \<Longrightarrow> getitem b k = Inr (member b k)"
proof (cases b)
  case (JObj d)
  assume "has_member b k"
  with JObj have "map_of d k \<noteq> None" by (simp add: map_of_eq_None_iff)
  with JObj show ?thesis by (auto simp: member_def dict_getitem_def)
qed simp_all

lemma block_fields_well_formed:
  "well_formed_block b \<Longrightarrow>
   block_fields b =
     Inr [(''blockCoinbase'', member b ''miner''), (''blockDifficulty'', member b ''difficulty''),
          (''blockGasLimit'', member b ''gasLimit''), (''blockTimestamp'', member b ''timestamp'')]"
  by (simp add: well_formed_block_def block_fields_def getitem_has_member)

lemma process_transaction_well_formed:
  "well_formed_block b \<Longrightarrow> is_object t \<Longrightarrow> process_transaction b t = Inr (enriched b (object_of t))"
  by (cases t) (simp_all add: process_transaction_def block_fields_well_formed enriched_def)

lemma process_block_transactions_well_formed:
  "well_formed_block b \<Longrightarrow> list_all is_object ts \<Longrightarrow>
   process_block_transactions b ts processed = Inr (processed @ map (enriched b) (map object_of ts))"
  by (induction ts arbitrary: processed) (simp_all add: process_transaction_well_formed)

lemma block_number_well_formed:
  "well_formed_block b \<Longrightarrow> getitem b ''number'' = Inr (member b ''number'')"
  by (rule getitem_member) (auto simp: well_formed_block_def)

lemma block_transactions_well_formed:
  assumes "well_formed_block b"
  shows "getitem b ''transactions'' = Inr (member b ''transactions'')"
    and "py_iter (member b ''transactions'') = Inr (elements_of (member b ''transactions''))"
    and "list_all is_object (elements_of (member b ''transactions''))"
proof -
  from assms have ol: "is_object_list (member b ''transactions'')"
    by (simp add: well_formed_block_def)
  then obtain xs where xs: "member b ''transactions'' = JArr xs"
    by (cases "member b ''transactions''") simp_all
  then show "getitem b ''transactions'' = Inr (member b ''transactions'')"
    by (intro getitem_member) simp
  from xs show "py_iter (member b ''transactions'') = Inr (elements_of (member b ''transactions''))"
    by simp
  from ol xs show "list_all is_object (elements_of (member b ''transactions''))" by simp
qed

lemma process_blocks_well_formed:
  "list_all well_formed_block bs \<Longrightarrow>
   process_blocks skip bs processed = Inr (processed @ collected_transactions skip bs)"
proof (induction bs arbitrary: processed)
  case Nil
  show ?case by (simp add: collected_transactions_def)
next
  case (Cons b bs)
  then have wf: "well_formed_block b" and rest: "list_all well_formed_block bs" by simp_all
  show ?case
  proof (cases "block_skipped skip b")
    case True
    with wf Cons.IH [OF rest] show ?thesis
      by (simp add: block_number_well_formed block_skipped_def collected_transactions_def)
  next
    case False
    with wf Cons.IH [OF rest] show ?thesis
      by (simp add: block_number_well_formed block_skipped_def collected_transactions_def
          block_transactions_well_formed process_block_transactions_well_formed
          block_transactions_def)
  qed
qed

lemma normalize_nulls_Nil: "normalize_nulls [] = []"
  by (simp add: normalize_nulls_def)

lemma normalize_nulls_Cons: "normalize_nulls ((k, v) # d) = (k, null_to_empty v) # normalize_nulls d"
  by (simp add: normalize_nulls_def null_to_empty_def)

lemma map_of_normalize_nulls:
  "map_of (normalize_nulls d) k = map_option null_to_empty (map_of d k)"
proof (induction d)
  case Nil
  show ?case by (simp add: normalize_nulls_Nil)
next
  case (Cons kv d)
  obtain k' v where kv: "kv = (k', v)" by (cases kv)
  show ?case unfolding kv normalize_nulls_Cons using Cons.IH by simp
qed

lemma enriched_unfold:
  "enriched b d =
     dict_setitem (dict_setitem (dict_setitem (dict_setitem (normalize_nulls d)
       ''blockCoinbase'' (member b ''miner'')) ''blockDifficulty'' (member b ''difficulty''))
       ''blockGasLimit'' (member b ''gasLimit'')) ''blockTimestamp'' (member b ''timestamp'')"
  by (simp add: enriched_def dict_update_def)

lemma map_of_enriched_block:
  "map_of (enriched b d) ''blockCoinbase'' = Some (member b ''miner'')"
  "map_of (enriched b d) ''blockDifficulty'' = Some (member b ''difficulty'')"
  "map_of (enriched b d) ''blockGasLimit'' = Some (member b ''gasLimit'')"
  "map_of (enriched b d) ''blockTimestamp'' = Some (member b ''timestamp'')"
  by (simp_all add: enriched_unfold)

lemma map_of_enriched_other:
  "k \<notin> enrichment_keys \<Longrightarrow> map_of (enriched b d) k = map_option null_to_empty (map_of d k)"
  by (simp add: enriched_unfold enrichment_keys_def map_of_normalize_nulls)

text \<open>
  Claim C7, amended. The block list that is processed is the given one when it is not
  empty; when no list or an empty list is given, it is the list fetched from the node.
  For well-formed blocks the result is the list \<open>collected_transactions\<close>: block
  order, then the order within the block, without the blocks whose number is in the skip
  list, every transaction \<open>enriched\<close>. An enriched transaction carries the four
  members of its block as the block has them (they are stored after the nulls are
  replaced, so a null block member stays null), and each of its other members is the
  original one with \<open>None\<close> replaced by the empty string.
\<close>

theorem get_transactions_collects:
  assumes "list_all well_formed_block bs"
    and "blocks = Some bs \<and> bs \<noteq> []
         \<or> (blocks = None \<or> blocks = Some []) \<and> run_rpc (get_all_blocks net self) = Inr bs"
  shows "get_transactions net self blocks skip = Inr (collected_transactions skip bs)
         \<and> collected_transactions skip bs =
             concat (map (\<lambda>b. map (enriched b) (block_transactions b))
                       (filter (\<lambda>b. \<not> block_skipped skip b) bs))
         \<and> (\<forall>b d. map_of (enriched b d) ''blockCoinbase'' = Some (member b ''miner'')
                \<and> map_of (enriched b d) ''blockDifficulty'' = Some (member b ''difficulty'')
                \<and> map_of (enriched b d) ''blockGasLimit'' = Some (member b ''gasLimit'')
                \<and> map_of (enriched b d) ''blockTimestamp'' = Some (member b ''timestamp'')
                \<and> (\<forall>k. k \<notin> enrichment_keys \<longrightarrow>
                       map_of (enriched b d) k = map_option null_to_empty (map_of d k)))"
proof (intro conjI allI impI)
  have "get_transactions net self blocks skip = process_blocks skip bs []"
    using assms(2) by (auto simp: get_transactions_def)
  then show "get_transactions net self blocks skip = Inr (collected_transactions skip bs)"
    by (simp add: process_blocks_well_formed [OF assms(1)])
next
  show "collected_transactions skip bs =
          concat (map (\<lambda>b. map (enriched b) (block_transactions b))
                    (filter (\<lambda>b. \<not> block_skipped skip b) bs))"
    by (rule collected_transactions_def)
qed (rule map_of_enriched_block map_of_enriched_other, assumption?)+

lemma hex_0: "hex 0 = ''0x0''"
  by (simp add: hex_def hex_digits.simps [of 0] hex_char_def)

lemma hex_1: "hex 1 = ''0x1''"
  by (simp add: hex_def hex_digits.simps [of 1] hex_digits.simps [of "Suc 0"] hex_char_def)

lemma int_of_hex_0: "int_of_hex ''0x0'' = Some 0"
  by (simp add: int_of_hex_def strip_def is_space_def split_sign_def strip_hex_prefix_def
      hex_digit_val_def)

lemma member_example_block:
  "member (example_block n txs) ''number'' = JStr (hex (int n))"
  "member (example_block n txs) ''miner'' = JStr ''0x00''"
  "member (example_block n txs) ''difficulty'' = JStr ''0x0''"
  "member (example_block n txs) ''gasLimit'' = JStr ''0x6691b7''"
  "member (example_block n txs) ''timestamp'' = JStr ''0x5f''"
  "member (example_block n txs) ''transactions'' = JArr txs"
  by (simp_all add: example_block_def member_def dict_getitem_def)

lemma example_block_well_formed:
  "list_all is_object txs \<Longrightarrow> well_formed_block (example_block n txs)"
  by (simp add: well_formed_block_def member_example_block) (simp add: example_block_def)

theorem get_transactions_collects_witness:
  "get_transactions (chain_node [] []) example_client
     (Some [example_block 0 [JObj [(''hash'', JStr ''0x01''), (''to'', JNull)]],
            example_block 1 [JObj [(''hash'', JStr ''0x02''), (''to'', JStr ''0xcc'')]]])
     [''0x1'']
   = Inr [[(''hash'', JStr ''0x01''), (''to'', JStr []), (''blockCoinbase'', JStr ''0x00''),
           (''blockDifficulty'', JStr ''0x0''), (''blockGasLimit'', JStr ''0x6691b7''),
           (''blockTimestamp'', JStr ''0x5f'')]]"
proof -
  let ?t0 = "[(''hash'', JStr ''0x01''), (''to'', JNull)]"
  let ?t1 = "[(''hash'', JStr ''0x02''), (''to'', JStr ''0xcc'')]"
  let ?bs = "[example_block 0 [JObj ?t0], example_block 1 [JObj ?t1]]"
  have wf: "list_all well_formed_block ?bs"
    by (simp add: example_block_well_formed)
  have sk: "\<not> block_skipped [''0x1''] (example_block 0 [JObj ?t0])"
    "block_skipped [''0x1''] (example_block (Suc 0) [JObj ?t1])"
    by (simp_all add: block_skipped_def member_example_block hex_0 hex_1)
  have en: "enriched (example_block 0 [JObj ?t0]) ?t0 =
      [(''hash'', JStr ''0x01''), (''to'', JStr []), (''blockCoinbase'', JStr ''0x00''),
       (''blockDifficulty'', JStr ''0x0''), (''blockGasLimit'', JStr ''0x6691b7''),
       (''blockTimestamp'', JStr ''0x5f'')]"
    by (simp add: enriched_unfold member_example_block normalize_nulls_Cons normalize_nulls_Nil
        null_to_empty_def)
  have "get_transactions (chain_node [] []) example_client (Some ?bs) [''0x1'']
          = Inr (collected_transactions [''0x1''] ?bs)"
    using get_transactions_collects [OF wf, of "Some ?bs" "chain_node [] []" example_client
        "[''0x1'']"] by simp
  also have "collected_transactions [''0x1''] ?bs =
      [enriched (example_block 0 [JObj ?t0]) ?t0]"
    by (simp add: collected_transactions_def sk block_transactions_def member_example_block)
  finally show ?thesis by (simp only: en)
qed

section \<open>Seed State Builder\<close>

lemma chain_node_latest:
  "blocks \<noteq> [] \<Longrightarrow>
   chain_node blocks codes url (rpc_payload ''eth_getBlockByNumber'' [PStr ''latest'', PBool True])
     = result_body (last blocks)"
  by (simp add: chain_node_def rpc_payload_def dict_getitem_def)

lemma chain_node_empty:
  "chain_node [] codes url (rpc_payload ''eth_getBlockByNumber'' [PStr ''latest'', PBool True])
     = result_body JNull"
  by (simp add: chain_node_def rpc_payload_def dict_getitem_def)

lemma chain_node_block_0:
  "blocks \<noteq> [] \<Longrightarrow>
   chain_node blocks codes url (rpc_payload ''eth_getBlockByNumber'' [PStr ''0x0'', PBool True])
     = result_body (blocks ! 0)"
  by (simp add: chain_node_def rpc_payload_def dict_getitem_def int_of_hex_0)

lemma chain_node_code:
  "chain_node blocks codes url (rpc_payload ''eth_getCode'' [PStr a, PStr ''latest''])
     = result_body (case map_of codes a of None \<Rightarrow> JStr ''0x'' | Some c \<Rightarrow> JStr c)"
  by (simp add: chain_node_def rpc_payload_def dict_getitem_def)

lemma call_chain_node_latest:
  "blocks \<noteq> [] \<Longrightarrow>
   call (chain_node blocks codes) self ''eth_getBlockByNumber'' [PStr ''latest'', PBool True] sent
     = (Inr (last blocks), sent @ [(''eth_getBlockByNumber'', [PStr ''latest'', PBool True])])"
  by (simp add: call_def chain_node_latest result_body_def)

lemma call_chain_node_empty:
  "call (chain_node [] codes) self ''eth_getBlockByNumber'' [PStr ''latest'', PBool True] sent
     = (Inr JNull, sent @ [(''eth_getBlockByNumber'', [PStr ''latest'', PBool True])])"
  by (simp add: call_def chain_node_empty result_body_def)

lemma call_chain_node_block_0:
  "blocks \<noteq> [] \<Longrightarrow>
   call (chain_node blocks codes) self ''eth_getBlockByNumber'' [PStr ''0x0'', PBool True] sent
     = (Inr (blocks ! 0), sent @ [(''eth_getBlockByNumber'', [PStr ''0x0'', PBool True])])"
  by (simp add: call_def chain_node_block_0 result_body_def)

lemma call_chain_node_code:
  "call (chain_node blocks codes) self ''eth_getCode'' [PStr a, PStr ''latest''] sent
     = (Inr (case map_of codes a of None \<Rightarrow> JStr ''0x'' | Some c \<Rightarrow> JStr c),
        sent @ [(''eth_getCode'', [PStr a, PStr ''latest''])])"
  by (simp add: call_def chain_node_code result_body_def)

lemma truthy_example_block: "truthy (example_block n txs)"
  by (simp add: example_block_def)

lemma getitem_example_block_number:
  "getitem (example_block n txs) ''number'' = Inr (JStr (hex (int n)))"
  by (simp add: example_block_def dict_getitem_def)

lemma get_all_blocks_empty_chain:
  "run_rpc (get_all_blocks (chain_node [] codes) self) = Inr []"
  by (simp add: run_rpc_def get_all_blocks_def get_latest_block_number_def get_block_def
      rpc_bind_def rpc_return_def call_chain_node_empty)

lemma get_all_blocks_one_block:
  "run_rpc (get_all_blocks (chain_node [example_block 0 txs] codes) self)
     = Inr [example_block 0 txs]"
proof -
  let ?net = "chain_node [example_block 0 txs] codes"
  have latest: "get_latest_block_number ?net self [] =
      (Inr 0, [(''eth_getBlockByNumber'', [PStr ''latest'', PBool True])])"
    by (simp add: get_latest_block_number_def get_block_def rpc_bind_def rpc_lift_def
        call_chain_node_latest truthy_example_block
        getitem_example_block_number hex_0 int_of_hex_0)
  have fetch: "fst (fetch_blocks ?net self 0 (Suc 0) [] sent) = Inr [example_block 0 txs]" for sent
    by (simp add: get_block_def rpc_bind_def rpc_return_def hex_0
        call_chain_node_block_0)
  have "get_all_blocks ?net self [] =
      fetch_blocks ?net self 0 (Suc 0) [] [(''eth_getBlockByNumber'', [PStr ''latest'', PBool True])]"
    unfolding get_all_blocks_def rpc_bind_def latest
    by (simp add: NUM_BLOCKS_UPPER_LIMIT_def del: fetch_blocks.simps)
  then show ?thesis
    by (simp only: run_rpc_def fetch)
qed

text \<open>
  Claim C9. When the lessons are read and the collected transaction sequence is empty,
  \<open>get_seed_state\<close> fails with the usage error that says that no transactions were
  found; a seed state that is returned has a non-empty list of steps; and the text of
  that error differs from the one of the generic failure.
\<close>

theorem get_seed_state_empty_history:
  "(collect_lessons lessons [] [] = Inr (skip, seqs)
      \<and> get_transactions net self None skip = Inr []
    \<longrightarrow> get_seed_state net self lessons address others corpus_target
          = Inl (UsageError (no_transactions_message self address)))
   \<and> (get_seed_state net self lessons address others corpus_target = Inr seed_state
        \<longrightarrow> steps (analysis_setup seed_state) \<noteq> [])
   \<and> no_transactions_message self address \<noteq> seed_state_failure_message address"
proof (intro conjI impI)
  assume "collect_lessons lessons [] [] = Inr (skip, seqs)
      \<and> get_transactions net self None skip = Inr []"
  then show "get_seed_state net self lessons address others corpus_target
          = Inl (UsageError (no_transactions_message self address))"
    by (simp add: get_seed_state_def get_seed_state_body_def)
next
  assume ok: "get_seed_state net self lessons address others corpus_target = Inr seed_state"
  show "steps (analysis_setup seed_state) \<noteq> []"
  proof (cases "collect_lessons lessons [] []")
    case (Inl e)
    with ok show ?thesis
      by (simp add: get_seed_state_def get_seed_state_body_def split: if_splits)
  next
    case (Inr p)
    obtain sk sq where p: "p = (sk, sq)" by (cases p)
    show ?thesis
    proof (cases "get_transactions net self None sk")
      case (Inl e)
      with ok Inr p show ?thesis
        by (simp add: get_seed_state_def get_seed_state_body_def split: if_splits)
    next
      case txs: (Inr txs)
      show ?thesis
      proof (cases "txs = []")
        case True
        with ok Inr p txs show ?thesis
          by (simp add: get_seed_state_def get_seed_state_body_def)
      next
        case False
        with ok Inr p txs have "steps (analysis_setup seed_state) = txs"
          by (auto simp: get_seed_state_def get_seed_state_body_def)
        with False show ?thesis by simp
      qed
    qed
  qed
next
  show "no_transactions_message self address \<noteq> seed_state_failure_message address"
    by (simp add: no_transactions_message_def seed_state_failure_message_def)
qed

theorem get_seed_state_empty_history_witness:
  "get_seed_state (chain_node [] []) example_client [] ''0xbb'' None None
     = Inl (UsageError (no_transactions_message example_client ''0xbb''))
   \<and> (\<exists>s. get_seed_state (chain_node [example_block 0 [JObj example_creation]] [])
              example_client [] ''0xbb'' None None = Inr s
          \<and> steps (analysis_setup s) \<noteq> [])"
proof
  have "get_transactions (chain_node [] []) example_client None [] = Inr []"
    by (simp add: get_transactions_def get_all_blocks_empty_chain)
  with get_seed_state_empty_history [of "[]" "[]" "[]" "chain_node [] []" example_client
      "''0xbb''" None None]
  show "get_seed_state (chain_node [] []) example_client [] ''0xbb'' None None
     = Inl (UsageError (no_transactions_message example_client ''0xbb''))"
    by simp
next
  let ?net = "chain_node [example_block 0 [JObj example_creation]] []"
  have wf: "list_all well_formed_block [example_block 0 [JObj example_creation]]"
    by (simp add: example_block_well_formed)
  have "process_blocks [] [example_block 0 [JObj example_creation]] []
          = Inr ([] @ collected_transactions [] [example_block 0 [JObj example_creation]])"
    by (rule process_blocks_well_formed [OF wf])
  then have "get_transactions ?net example_client None []
          = Inr (collected_transactions [] [example_block 0 [JObj example_creation]])"
    by (simp add: get_transactions_def get_all_blocks_one_block del: process_blocks.simps)
  moreover have "collected_transactions [] [example_block 0 [JObj example_creation]]
      = [enriched (example_block 0 [JObj example_creation]) example_creation]"
    by (simp add: collected_transactions_def block_skipped_def member_example_block
        block_transactions_def)
  ultimately have "\<exists>s. get_seed_state ?net example_client [] ''0xbb'' None None = Inr s"
    by (simp add: get_seed_state_def get_seed_state_body_def)
  then obtain s where s: "get_seed_state ?net example_client [] ''0xbb'' None None = Inr s" ..
  with get_seed_state_empty_history [of "[]" "[]" "[]" ?net example_client "''0xbb''" None None s]
  have "steps (analysis_setup s) \<noteq> []" by simp
  with s show "\<exists>s. get_seed_state ?net example_client [] ''0xbb'' None None = Inr s
          \<and> steps (analysis_setup s) \<noteq> []" by blast
qed

section \<open>Transaction Collector: an empty list and a null block member\<close>

lemma enriched_example_creation:
  "enriched (example_block 0 txs) example_creation =
     [(''hash'', JStr ''0x01''), (''nonce'', JStr ''0x0''), (''from'', JStr example_sender),
      (''to'', JStr []), (''input'', JStr ''0x6080604052''),
      (''blockCoinbase'', JStr ''0x00''), (''blockDifficulty'', JStr ''0x0''),
      (''blockGasLimit'', JStr ''0x6691b7''), (''blockTimestamp'', JStr ''0x5f'')]"
  by (simp add: enriched_unfold member_example_block example_creation_def normalize_nulls_Cons
      normalize_nulls_Nil null_to_empty_def)

lemma get_transactions_of_empty_list:
  "get_transactions (chain_node [example_block 0 [JObj example_creation]] []) example_client
     (Some []) []
   = Inr [enriched (example_block 0 [JObj example_creation]) example_creation]"
proof -
  let ?b = "example_block 0 [JObj example_creation]"
  have wf: "list_all well_formed_block [?b]"
    by (simp add: example_block_well_formed)
  have "process_blocks [] [?b] [] = Inr ([] @ collected_transactions [] [?b])"
    by (rule process_blocks_well_formed [OF wf])
  moreover have "collected_transactions [] [?b] = [enriched ?b example_creation]"
    by (simp add: collected_transactions_def block_skipped_def member_example_block
        block_transactions_def)
  ultimately show ?thesis
    by (simp add: get_transactions_def get_all_blocks_one_block del: process_blocks.simps)
qed

lemma get_transactions_null_miner:
  "get_transactions (chain_node [] []) example_client
     (Some [JObj [(''number'', JStr ''0x0''), (''miner'', JNull), (''difficulty'', JStr ''0x0''),
                  (''gasLimit'', JStr ''0x6691b7''), (''timestamp'', JStr ''0x5f''),
                  (''transactions'', JArr [JObj [(''hash'', JStr ''0x01'')]])]]) []
   = Inr [[(''hash'', JStr ''0x01''), (''blockCoinbase'', JNull),
           (''blockDifficulty'', JStr ''0x0''), (''blockGasLimit'', JStr ''0x6691b7''),
           (''blockTimestamp'', JStr ''0x5f'')]]"
  by (simp add: get_transactions_def dict_getitem_def block_fields_def process_transaction_def
      normalize_nulls_Cons normalize_nulls_Nil null_to_empty_def dict_update_def)

text \<open>
  Claim C7, as stated, fails twice. An explicitly given empty block list is treated as
  absent: the transactions of the node are returned for it. And a block member that is
  null is copied as it is: the returned transaction has a null \<open>blockCoinbase\<close>.
\<close>

theorem get_transactions_empty_list_and_null_member:
  "get_transactions (chain_node [example_block 0 [JObj example_creation]] []) example_client
     (Some []) []
   = Inr [[(''hash'', JStr ''0x01''), (''nonce'', JStr ''0x0''), (''from'', JStr example_sender),
           (''to'', JStr []), (''input'', JStr ''0x6080604052''),
           (''blockCoinbase'', JStr ''0x00''), (''blockDifficulty'', JStr ''0x0''),
           (''blockGasLimit'', JStr ''0x6691b7''), (''blockTimestamp'', JStr ''0x5f'')]]
   \<and> get_transactions (chain_node [] []) example_client
     (Some [JObj [(''number'', JStr ''0x0''), (''miner'', JNull), (''difficulty'', JStr ''0x0''),
                  (''gasLimit'', JStr ''0x6691b7''), (''timestamp'', JStr ''0x5f''),
                  (''transactions'', JArr [JObj [(''hash'', JStr ''0x01'')]])]]) []
   = Inr [[(''hash'', JStr ''0x01''), (''blockCoinbase'', JNull),
           (''blockDifficulty'', JStr ''0x0''), (''blockGasLimit'', JStr ''0x6691b7''),
           (''blockTimestamp'', JStr ''0x5f'')]]"
  by (simp only: get_transactions_of_empty_list get_transactions_null_miner
      enriched_example_creation simp_thms)

section \<open>Address derivation over the steps\<close>

lemma dict_getitem_Some: "map_of d k = Some v \<Longrightarrow> dict_getitem d k = Inr v"
  by (simp add: dict_getitem_def)

lemma dict_getitem_None: "map_of d k = None \<Longrightarrow> dict_getitem d k = Inl (KeyError k)"
  by (simp add: dict_getitem_def)

lemma deployed_loop_Cons_creation:
  "is_contract_creation t \<Longrightarrow>
   deployed_loop mk (t # txns) cs =
     ebind (created_address mk t) (\<lambda>a. deployed_loop mk txns (set_add cs a))"
  by (auto simp: is_contract_creation_def dict_getitem_def split: option.splits)

lemma deployed_loop_Cons_recipient:
  "has_recipient t \<Longrightarrow> deployed_loop mk (t # txns) cs = deployed_loop mk txns cs"
  by (auto simp: has_recipient_def dict_getitem_def split: option.splits)

lemma deployed_loop_Cons_no_to:
  "map_of t ''to'' = None \<Longrightarrow> deployed_loop mk (t # txns) cs = Inl (KeyError ''to'')"
  by (simp add: dict_getitem_def)

lemma step_cases:
  obtains (creation) "is_contract_creation t" "\<not> has_recipient t"
  | (recipient) "has_recipient t" "\<not> is_contract_creation t"
  | (no_to) "map_of t ''to'' = None" "\<not> has_recipient t" "\<not> is_contract_creation t"
  by (cases "map_of t ''to''") (auto simp: is_contract_creation_def has_recipient_def)

lemmas deployed_loop_Cons =
  deployed_loop_Cons_creation deployed_loop_Cons_recipient deployed_loop_Cons_no_to

declare deployed_loop.simps(2) [simp del]

lemma deployed_loop_filter:
  "deployed_loop mk (filter (\<lambda>t. \<not> has_recipient t) txns) cs = deployed_loop mk txns cs"
proof (induction txns arbitrary: cs)
  case Nil
  show ?case by simp
next
  case (Cons t txns)
  show ?case
    by (cases t rule: step_cases) (simp_all add: deployed_loop_Cons Cons.IH)
qed

lemma deployed_loop_deriver:
  "(\<forall>t\<in>set txns. \<not> has_recipient t \<longrightarrow> created_address mk' t = created_address mk t) \<Longrightarrow>
   deployed_loop mk' txns cs = deployed_loop mk txns cs"
proof (induction txns arbitrary: cs)
  case Nil
  show ?case by simp
next
  case (Cons t txns)
  from Cons.prems
  have head: "\<not> has_recipient t \<Longrightarrow> created_address mk' t = created_address mk t"
    and tail: "\<forall>t\<in>set txns. \<not> has_recipient t \<longrightarrow> created_address mk' t = created_address mk t"
    by simp_all
  note rest = Cons.IH [OF tail]
  show ?case
    by (cases t rule: step_cases) (simp_all add: deployed_loop_Cons rest head)
qed

lemma deployed_loop_set:
  "deployed_loop mk txns cs = Inr cs' \<Longrightarrow>
   set cs' = set cs \<union> {a. \<exists>t\<in>set txns. is_contract_creation t \<and> created_address mk t = Inr a}"
proof (induction txns arbitrary: cs)
  case Nil
  then show ?case by simp
next
  case (Cons t txns)
  show ?case
  proof (cases t rule: step_cases)
    case creation
    with Cons.prems obtain a where a: "created_address mk t = Inr a"
      and rest: "deployed_loop mk txns (set_add cs a) = Inr cs'"
      by (auto simp: deployed_loop_Cons ebind_eq_Inr)
    from Cons.IH [OF rest] a creation show ?thesis by auto
  next
    case recipient
    with Cons.prems have "deployed_loop mk txns cs = Inr cs'"
      by (simp add: deployed_loop_Cons)
    from Cons.IH [OF this] recipient show ?thesis by auto
  next
    case no_to
    with Cons.prems show ?thesis by (simp add: deployed_loop_Cons)
  qed
qed

lemma deployed_loop_distinct:
  "deployed_loop mk txns cs = Inr cs' \<Longrightarrow> distinct cs \<Longrightarrow> distinct cs'"
proof (induction txns arbitrary: cs)
  case Nil
  then show ?case by simp
next
  case (Cons t txns)
  show ?case
  proof (cases t rule: step_cases)
    case creation
    with Cons.prems obtain a where
      rest: "deployed_loop mk txns (set_add cs a) = Inr cs'"
      by (auto simp: deployed_loop_Cons ebind_eq_Inr)
    from Cons.IH [OF rest] Cons.prems(2) show ?thesis by (simp add: distinct_set_add)
  next
    case recipient
    with Cons.prems have "deployed_loop mk txns cs = Inr cs'"
      by (simp add: deployed_loop_Cons)
    from Cons.IH [OF this] Cons.prems(2) show ?thesis .
  next
    case no_to
    with Cons.prems show ?thesis by (simp add: deployed_loop_Cons)
  qed
qed

lemma deployed_loop_total:
  "\<forall>t\<in>set txns. map_of t ''to'' \<noteq> None \<Longrightarrow>
   \<forall>t\<in>set txns. is_contract_creation t \<longrightarrow> (\<exists>a. created_address mk t = Inr a) \<Longrightarrow>
   \<exists>cs'. deployed_loop mk txns cs = Inr cs'"
proof (induction txns arbitrary: cs)
  case Nil
  show ?case by simp
next
  case (Cons t txns)
  then have rest: "\<And>cs. \<exists>cs'. deployed_loop mk txns cs = Inr cs'" by simp
  show ?case
  proof (cases t rule: step_cases)
    case creation
    with Cons.prems(2) obtain a where "created_address mk t = Inr a" by auto
    with creation rest [of "set_add cs a"] show ?thesis by (simp add: deployed_loop_Cons)
  next
    case recipient
    with rest [of cs] show ?thesis by (simp add: deployed_loop_Cons)
  next
    case no_to
    with Cons.prems(1) show ?thesis by simp
  qed
qed

lemma from_slice_Inr: "(from_slice v = Inr s) = (\<exists>str. v = JStr str \<and> s = drop 2 str)"
  by (cases v) auto

lemma py_int16_Inr: "(py_int16 v = Inr n) = (\<exists>str. v = JStr str \<and> int_of_hex str = Some n)"
  by (cases v) (auto split: option.splits)

lemma dict_getitem_Inr: "(dict_getitem d k = Inr v) = (map_of d k = Some v)"
  by (simp add: dict_getitem_def split: option.splits)

lemma created_address_Inr:
  "(created_address mk t = Inr a) =
     (\<exists>sender nonce n. map_of t ''from'' = Some (JStr sender)
        \<and> map_of t ''nonce'' = Some (JStr nonce) \<and> int_of_hex nonce = Some n
        \<and> mk (drop 2 sender) n True = Inr a)"
  unfolding created_address_def ebind_eq_Inr dict_getitem_Inr from_slice_Inr py_int16_Inr
  by blast

lemma created_address_agree:
  assumes "\<And>sender nonce n. map_of t ''from'' = Some (JStr sender) \<Longrightarrow>
      map_of t ''nonce'' = Some (JStr nonce) \<Longrightarrow> int_of_hex nonce = Some n \<Longrightarrow>
      mk' (drop 2 sender) n True = mk (drop 2 sender) n True"
  shows "created_address mk' t = created_address mk t"
proof (cases "dict_getitem t ''from''")
  case (Inl e)
  then show ?thesis by (simp add: created_address_def)
next
  case f: (Inr fv)
  show ?thesis
  proof (cases "from_slice fv")
    case (Inl e)
    with f show ?thesis by (simp add: created_address_def)
  next
    case s: (Inr s)
    then obtain sender where fv: "fv = JStr sender" and sd: "s = drop 2 sender"
      unfolding from_slice_Inr by blast
    show ?thesis
    proof (cases "dict_getitem t ''nonce''")
      case (Inl e)
      with f s show ?thesis by (simp add: created_address_def)
    next
      case nv: (Inr nv)
      show ?thesis
      proof (cases "py_int16 nv")
        case (Inl e)
        with f s nv show ?thesis by (simp add: created_address_def)
      next
        case n: (Inr n)
        then obtain nonce where "nv = JStr nonce" "int_of_hex nonce = Some n"
          unfolding py_int16_Inr by blast
        with f fv nv have "mk' (drop 2 sender) n True = mk (drop 2 sender) n True"
          by (intro assms) (simp_all add: dict_getitem_Inr)
        with f s nv n sd show ?thesis by (simp add: created_address_def)
      qed
    qed
  qed
qed

text \<open>
  Claim C6. A returned set holds exactly the addresses that the deriver gives for the
  steps whose recipient is empty, from the sender (the \<open>from\<close> member without its first
  two characters) and the nonce (the \<open>nonce\<close> member read as a hexadecimal number); it
  has no duplicates, and the call returns when every step has a \<open>to\<close> member and every
  creation step derives an address. Steps with a non-empty recipient contribute
  nothing: removing them does not change the result, and neither does changing what the
  deriver answers on arguments other than those of the steps without a recipient, so
  the deriver is not called for them.
\<close>

theorem get_all_deployed_contracts_addresses_creations:
  "(get_all_deployed_contracts_addresses mk seed_state = Inr contracts \<longrightarrow>
      set contracts =
        {a. \<exists>t\<in>set (steps (analysis_setup seed_state)). \<exists>sender nonce n.
              is_contract_creation t
              \<and> map_of t ''from'' = Some (JStr sender)
              \<and> map_of t ''nonce'' = Some (JStr nonce) \<and> int_of_hex nonce = Some n
              \<and> mk (drop 2 sender) n True = Inr a}
      \<and> distinct contracts)
   \<and> ((\<forall>t\<in>set (steps (analysis_setup seed_state)). map_of t ''to'' \<noteq> None)
       \<and> (\<forall>t\<in>set (steps (analysis_setup seed_state)).
             is_contract_creation t \<longrightarrow>
             (\<exists>sender nonce n a. map_of t ''from'' = Some (JStr sender)
                \<and> map_of t ''nonce'' = Some (JStr nonce) \<and> int_of_hex nonce = Some n
                \<and> mk (drop 2 sender) n True = Inr a))
       \<longrightarrow> (\<exists>cs. get_all_deployed_contracts_addresses mk seed_state = Inr cs))
   \<and> get_all_deployed_contracts_addresses mk
        (seed_state\<lparr>analysis_setup := (analysis_setup seed_state)
           \<lparr>steps := filter (\<lambda>t. \<not> has_recipient t) (steps (analysis_setup seed_state))\<rparr>\<rparr>)
       = get_all_deployed_contracts_addresses mk seed_state
   \<and> ((\<forall>t\<in>set (steps (analysis_setup seed_state)). \<forall>sender nonce n.
          \<not> has_recipient t \<and> map_of t ''from'' = Some (JStr sender)
          \<and> map_of t ''nonce'' = Some (JStr nonce) \<and> int_of_hex nonce = Some n
          \<longrightarrow> mk' (drop 2 sender) n True = mk (drop 2 sender) n True)
       \<longrightarrow> get_all_deployed_contracts_addresses mk' seed_state
           = get_all_deployed_contracts_addresses mk seed_state)"
  unfolding get_all_deployed_contracts_addresses_def
proof (intro conjI impI)
  assume r: "deployed_loop mk (steps (analysis_setup seed_state)) [] = Inr contracts"
  from deployed_loop_set [OF r]
  have "set contracts = {a. \<exists>t\<in>set (steps (analysis_setup seed_state)).
                            is_contract_creation t \<and> created_address mk t = Inr a}" by simp
  then show "set contracts =
        {a. \<exists>t\<in>set (steps (analysis_setup seed_state)). \<exists>sender nonce n.
              is_contract_creation t
              \<and> map_of t ''from'' = Some (JStr sender)
              \<and> map_of t ''nonce'' = Some (JStr nonce) \<and> int_of_hex nonce = Some n
              \<and> mk (drop 2 sender) n True = Inr a}"
    unfolding created_address_Inr by simp
  from deployed_loop_distinct [OF r] show "distinct contracts" by simp
next
  assume a: "(\<forall>t\<in>set (steps (analysis_setup seed_state)). map_of t ''to'' \<noteq> None)
       \<and> (\<forall>t\<in>set (steps (analysis_setup seed_state)).
             is_contract_creation t \<longrightarrow>
             (\<exists>sender nonce n a. map_of t ''from'' = Some (JStr sender)
                \<and> map_of t ''nonce'' = Some (JStr nonce) \<and> int_of_hex nonce = Some n
                \<and> mk (drop 2 sender) n True = Inr a))"
  have "\<forall>t\<in>set (steps (analysis_setup seed_state)).
          is_contract_creation t \<longrightarrow> (\<exists>a. created_address mk t = Inr a)"
  proof (intro ballI impI)
    fix t assume "t \<in> set (steps (analysis_setup seed_state))" "is_contract_creation t"
    with a obtain sender nonce n x where "map_of t ''from'' = Some (JStr sender)"
      "map_of t ''nonce'' = Some (JStr nonce)" "int_of_hex nonce = Some n"
      "mk (drop 2 sender) n True = Inr x" by blast
    then have "created_address mk t = Inr x" unfolding created_address_Inr by blast
    then show "\<exists>a. created_address mk t = Inr a" ..
  qed
  with a show "\<exists>cs. deployed_loop mk (steps (analysis_setup seed_state)) [] = Inr cs"
    using deployed_loop_total by blast
next
  show "deployed_loop mk
          (steps (analysis_setup (seed_state\<lparr>analysis_setup := (analysis_setup seed_state)
             \<lparr>steps := filter (\<lambda>t. \<not> has_recipient t) (steps (analysis_setup seed_state))\<rparr>\<rparr>))) []
        = deployed_loop mk (steps (analysis_setup seed_state)) []"
    by (simp add: deployed_loop_filter)
next
  assume a: "\<forall>t\<in>set (steps (analysis_setup seed_state)). \<forall>sender nonce n.
          \<not> has_recipient t \<and> map_of t ''from'' = Some (JStr sender)
          \<and> map_of t ''nonce'' = Some (JStr nonce) \<and> int_of_hex nonce = Some n
          \<longrightarrow> mk' (drop 2 sender) n True = mk (drop 2 sender) n True"
  have "\<forall>t\<in>set (steps (analysis_setup seed_state)).
          \<not> has_recipient t \<longrightarrow> created_address mk' t = created_address mk t"
  proof (intro ballI impI)
    fix t assume t: "t \<in> set (steps (analysis_setup seed_state))" "\<not> has_recipient t"
    show "created_address mk' t = created_address mk t"
    proof (rule created_address_agree)
      fix sender nonce n
      assume "map_of t ''from'' = Some (JStr sender)" "map_of t ''nonce'' = Some (JStr nonce)"
        "int_of_hex nonce = Some n"
      with a t show "mk' (drop 2 sender) n True = mk (drop 2 sender) n True" by blast
    qed
  qed
  then show "deployed_loop mk' (steps (analysis_setup seed_state)) []
           = deployed_loop mk (steps (analysis_setup seed_state)) []"
    by (rule deployed_loop_deriver)
qed

lemma int_of_hex_1: "int_of_hex ''0x1'' = Some 1"
  by (simp add: int_of_hex_def strip_def is_space_def split_sign_def strip_hex_prefix_def
      hex_digit_val_def)

lemma created_address_example:
  "created_address example_deriver example_creation = Inr example_created_address"
  by (simp add: created_address_def example_creation_def dict_getitem_def example_deriver_def
      int_of_hex_0)

lemma created_address_second_example:
  "created_address example_deriver example_second_creation = Inr example_second_address"
  by (simp add: created_address_def example_second_creation_def dict_getitem_def
      example_deriver_def int_of_hex_1)

lemma example_creation_is_creation:
  "is_contract_creation example_creation" "\<not> has_recipient example_creation"
  by (simp_all add: is_contract_creation_def has_recipient_def example_creation_def)

lemma example_second_creation_is_creation:
  "is_contract_creation example_second_creation" "\<not> has_recipient example_second_creation"
  by (simp_all add: is_contract_creation_def has_recipient_def example_second_creation_def)

lemma example_addresses_differ: "example_second_address \<noteq> example_created_address"
  by (simp add: example_second_address_def example_created_address_def)

lemma deployed_loop_example:
  "deployed_loop example_deriver [example_creation] [] = Inr [example_created_address]"
  by (simp add: deployed_loop_Cons example_creation_is_creation created_address_example
      set_add_def)

lemma deployed_loop_two_creations:
  "deployed_loop example_deriver [example_creation, example_second_creation] []
     = Inr [example_created_address, example_second_address]"
  by (simp add: deployed_loop_Cons example_creation_is_creation
      example_second_creation_is_creation created_address_example
      created_address_second_example set_add_def example_addresses_differ)

theorem get_all_deployed_contracts_addresses_creations_witness:
  "get_all_deployed_contracts_addresses example_deriver
     (example_seed_state [] None
        [example_creation, [(''to'', JStr ''0xcc''), (''nonce'', JStr ''zz'')],
         example_second_creation])
   = Inr [example_created_address, example_second_address]"
proof -
  let ?call = "[(''to'', JStr ''0xcc''), (''nonce'', JStr ''zz'')]"
  let ?seed = "example_seed_state [] None [example_creation, ?call, example_second_creation]"
  have "has_recipient ?call"
    by (simp add: has_recipient_def)
  then have steps: "filter (\<lambda>t. \<not> has_recipient t) (steps (analysis_setup ?seed))
      = [example_creation, example_second_creation]"
    by (simp add: example_seed_state_def example_creation_is_creation
        example_second_creation_is_creation)
  have "get_all_deployed_contracts_addresses example_deriver ?seed
      = get_all_deployed_contracts_addresses example_deriver
          (?seed\<lparr>analysis_setup := (analysis_setup ?seed)
             \<lparr>steps := filter (\<lambda>t. \<not> has_recipient t) (steps (analysis_setup ?seed))\<rparr>\<rparr>)"
    by (rule get_all_deployed_contracts_addresses_creations
        [THEN conjunct2, THEN conjunct2, THEN conjunct1, symmetric])
  also have "\<dots> = Inr [example_created_address, example_second_address]"
    unfolding steps
    by (simp add: get_all_deployed_contracts_addresses_def deployed_loop_two_creations)
  finally show ?thesis .
qed

section \<open>Reconciliation: unknown and missing targets\<close>

lemma set_addresses_under_test:
  "set (addresses_under_test seed_state) = lower ` declared_addresses seed_state"
  by (cases "other_addresses_under_test (analysis_setup seed_state)")
    (auto simp: addresses_under_test_def declared_addresses_def Let_def)

lemma run_rpc_get_code_not_click:
  "run_rpc (get_code net self a) = Inl e \<Longrightarrow> \<not> plain_click_exception e"
  by (auto simp: run_rpc_def get_code_def rpc_bind_def rpc_return_def call_def
      split: http_outcome.splits json.splits if_splits)

lemma missing_loop_keys:
  "missing_loop net self targets deployed missing = Inr m \<Longrightarrow>
   fst ` set m = fst ` set missing \<union> {d \<in> set deployed. d \<notin> set targets}"
proof (induction deployed arbitrary: missing)
  case Nil
  then show ?case by simp
next
  case (Cons d deployed)
  show ?case
  proof (cases "d \<in> set targets")
    case True
    with Cons.prems have "missing_loop net self targets deployed missing = Inr m" by simp
    from Cons.IH [OF this] True show ?thesis by auto
  next
    case False
    with Cons.prems obtain code where
      "missing_loop net self targets deployed (dict_setitem missing d code) = Inr m"
      by (auto simp: ebind_eq_Inr)
    from Cons.IH [OF this] False show ?thesis by auto
  qed
qed

lemma get_inconsistent_addresses_Inr:
  assumes "get_inconsistent_addresses mk net self seed_state = Inr (missing, unknown)"
  shows "\<exists>deployed. get_all_deployed_contracts_addresses mk seed_state = Inr deployed
           \<and> unknown = filter (\<lambda>a. a \<notin> set deployed) (addresses_under_test seed_state)
           \<and> fst ` set missing = {d \<in> set deployed. d \<notin> set (addresses_under_test seed_state)}"
proof -
  from assms obtain deployed where
    d: "get_all_deployed_contracts_addresses mk seed_state = Inr deployed"
    and m: "missing_loop net self (addresses_under_test seed_state) deployed [] = Inr missing"
    and u: "unknown = filter (\<lambda>a. a \<notin> set deployed) (addresses_under_test seed_state)"
    by (auto simp: get_inconsistent_addresses_def ebind_eq_Inr Let_def)
  from missing_loop_keys [OF m] d u show ?thesis by simp
qed

lemma created_address_from_deriver:
  "created_address mk t = Inr a \<Longrightarrow> \<exists>s n. mk s n True = Inr a"
  by (auto simp: created_address_def ebind_eq_Inr)

lemma deployed_addresses_lowercase:
  assumes "\<forall>s n a. mk s n True = Inr a \<longrightarrow> lower a = a"
    and "get_all_deployed_contracts_addresses mk seed_state = Inr deployed"
    and "d \<in> set deployed"
  shows "lower d = d"
proof -
  from assms(2) have "deployed_loop mk (steps (analysis_setup seed_state)) [] = Inr deployed"
    by (simp add: get_all_deployed_contracts_addresses_def)
  from deployed_loop_set [OF this] assms(3)
  obtain t where "created_address mk t = Inr d" by auto
  from created_address_from_deriver [OF this] assms(1) show ?thesis by blast
qed

text \<open>
  Claim C3. The declared addresses are lowercased before they are compared, and the
  deployed addresses are what the address deriver returns. With a deriver that returns
  lowercase addresses, as the specification of the deriver says, a declared address is
  an unknown target exactly when no deployed address equals it up to case, and a
  deployed address is a missing target exactly when no declared address equals it up to
  case.
\<close>

theorem address_comparison_case_insensitive:
  assumes "\<forall>s n a. mk s n True = Inr a \<longrightarrow> lower a = a"
    and "get_inconsistent_addresses mk net self seed_state = Inr (missing, unknown)"
  shows "\<exists>deployed. get_all_deployed_contracts_addresses mk seed_state = Inr deployed
           \<and> set unknown = {lower a |a. a \<in> declared_addresses seed_state
                                \<and> (\<forall>d\<in>set deployed. lower d \<noteq> lower a)}
           \<and> fst ` set missing = {d \<in> set deployed.
                                   \<forall>a\<in>declared_addresses seed_state. lower a \<noteq> lower d}"
proof -
  from get_inconsistent_addresses_Inr [OF assms(2)] obtain deployed where
    d: "get_all_deployed_contracts_addresses mk seed_state = Inr deployed"
    and u: "unknown = filter (\<lambda>a. a \<notin> set deployed) (addresses_under_test seed_state)"
    and m: "fst ` set missing = {d \<in> set deployed. d \<notin> set (addresses_under_test seed_state)}"
    by blast
  have lc: "lower x = x" if "x \<in> set deployed" for x
    using deployed_addresses_lowercase [OF assms(1) d that] .
  have "set unknown = {lower a |a. a \<in> declared_addresses seed_state
                                \<and> (\<forall>d\<in>set deployed. lower d \<noteq> lower a)}"
  proof (intro set_eqI iffI)
    fix x assume "x \<in> set unknown"
    with u obtain a where a: "a \<in> declared_addresses seed_state" "x = lower a"
      and nd: "lower a \<notin> set deployed"
      by (auto simp: set_addresses_under_test)
    from nd lc have "\<forall>d\<in>set deployed. lower d \<noteq> lower a" by auto
    with a show "x \<in> {lower a |a. a \<in> declared_addresses seed_state
                                \<and> (\<forall>d\<in>set deployed. lower d \<noteq> lower a)}" by blast
  next
    fix x assume "x \<in> {lower a |a. a \<in> declared_addresses seed_state
                                \<and> (\<forall>d\<in>set deployed. lower d \<noteq> lower a)}"
    then obtain a where a: "a \<in> declared_addresses seed_state" "x = lower a"
      and nd: "\<forall>d\<in>set deployed. lower d \<noteq> lower a" by blast
    from nd lc have "lower a \<notin> set deployed" by force
    with a u show "x \<in> set unknown" by (auto simp: set_addresses_under_test)
  qed
  moreover have "fst ` set missing = {d \<in> set deployed.
                                   \<forall>a\<in>declared_addresses seed_state. lower a \<noteq> lower d}"
    unfolding m set_addresses_under_test using lc by force
  ultimately show ?thesis using d by blast
qed

lemma lower_example_created_address:
  "lower ''0x3C952D36207C0D52743A646E7AC2649009BD358E'' = example_created_address"
  by code_simp

lemma lower_example_created_address_idem: "lower example_created_address = example_created_address"
  by code_simp

lemma lower_example_second_address_idem: "lower example_second_address = example_second_address"
  by code_simp

lemma example_deriver_lowercase:
  "\<forall>s n a. example_deriver s n True = Inr a \<longrightarrow> lower a = a"
  by (auto simp: example_deriver_def lower_example_created_address_idem
      lower_example_second_address_idem split: if_splits)

lemma run_rpc_get_code_chain_node:
  "run_rpc (get_code (chain_node blocks codes) self a)
     = Inr (case map_of codes a of None \<Rightarrow> JNull | Some c \<Rightarrow> if c = ''0x'' then JNull else JStr c)"
  by (simp add: run_rpc_def get_code_def rpc_bind_def rpc_return_def call_chain_node_code
      split: option.splits)

theorem address_comparison_case_insensitive_witness:
  "get_inconsistent_addresses example_deriver (chain_node [] []) example_client
     (example_seed_state ''0x3C952D36207C0D52743A646E7AC2649009BD358E'' None [example_creation])
     = Inr ([], [])
   \<and> (\<exists>deployed.
         get_all_deployed_contracts_addresses example_deriver
           (example_seed_state ''0x3C952D36207C0D52743A646E7AC2649009BD358E'' None
              [example_creation]) = Inr deployed
         \<and> set ([] :: string list) =
             {lower a |a.
                a \<in> declared_addresses
                      (example_seed_state ''0x3C952D36207C0D52743A646E7AC2649009BD358E'' None
                         [example_creation])
                \<and> (\<forall>d\<in>set deployed. lower d \<noteq> lower a)}
         \<and> fst ` set ([] :: (string \<times> json) list) =
             {d \<in> set deployed.
                \<forall>a\<in>declared_addresses
                       (example_seed_state ''0x3C952D36207C0D52743A646E7AC2649009BD358E'' None
                          [example_creation]).
                   lower a \<noteq> lower d})"
proof -
  let ?seed = "example_seed_state ''0x3C952D36207C0D52743A646E7AC2649009BD358E'' None
                 [example_creation]"
  have dep: "get_all_deployed_contracts_addresses example_deriver ?seed
      = Inr [example_created_address]"
    by (simp add: get_all_deployed_contracts_addresses_def example_seed_state_def
        deployed_loop_example)
  have aut: "addresses_under_test ?seed = [example_created_address]"
    by (simp add: addresses_under_test_def example_seed_state_def set_update_def set_add_def
        lower_example_created_address)
  have scan: "get_inconsistent_addresses example_deriver (chain_node [] []) example_client ?seed
      = Inr ([], [])"
    by (simp add: get_inconsistent_addresses_def dep aut)
  from address_comparison_case_insensitive [OF example_deriver_lowercase scan] scan
  show ?thesis by simp
qed

section \<open>Reconciliation: the stages of \<open>check_contracts\<close>\<close>

lemma no_click_Inr [simp]: "no_click_exception (Inr x)"
  by (simp add: no_click_exception_def)

lemma no_click_Inl [simp]: "no_click_exception (Inl e) = (\<not> plain_click_exception e)"
  by (simp add: no_click_exception_def)

lemma no_click_ebind:
  "no_click_exception m \<Longrightarrow> (\<And>x. no_click_exception (f x)) \<Longrightarrow> no_click_exception (ebind m f)"
  by (cases m) simp_all

lemma no_click_not_ClickException:
  "no_click_exception r \<Longrightarrow> r \<noteq> Inl (ClickException m)"
  by (cases r) auto

lemma no_click_get_code: "no_click_exception (run_rpc (get_code net self a))"
  using run_rpc_get_code_not_click [of net self a]
  by (cases "run_rpc (get_code net self a)") simp_all

lemma no_click_get_contract_by_address:
  "no_click_exception (get_contract_by_address net self a artifacts)"
  unfolding get_contract_by_address_def
  by (rule no_click_ebind [OF no_click_get_code]) (simp split: option.splits)

lemma no_click_resolve_missing:
  "no_click_exception (resolve_missing net self artifacts missing resolved)"
proof (induction missing arbitrary: resolved)
  case Nil
  show ?case by simp
next
  case (Cons p missing)
  obtain a code where p: "p = (a, code)" by (cases p)
  show ?case unfolding p resolve_missing.simps
    by (rule no_click_ebind [OF no_click_get_contract_by_address]) (rule Cons.IH)
qed

lemma no_click_collect_mismatched_targets:
  "no_click_exception (collect_mismatched_targets net self missing artifacts source_targets)"
  unfolding collect_mismatched_targets_def
  by (rule no_click_ebind [OF no_click_resolve_missing]) simp

lemma no_click_commonpath: "no_click_exception (commonpath a b)"
  by (simp add: commonpath_def)

lemma no_click_dir_match: "no_click_exception (dir_match path dirs)"
proof (induction dirs)
  case Nil
  show ?case by simp
next
  case (Cons d dirs)
  show ?case unfolding dir_match.simps
    by (rule no_click_ebind [OF no_click_commonpath]) (simp add: Cons.IH)
qed

lemma no_click_path_inclusion_checker:
  "no_click_exception (path_inclusion_checker is_dir paths path)"
  by (simp add: path_inclusion_checker_def Let_def no_click_dir_match)

lemma no_click_dict_getitem: "no_click_exception (dict_getitem d k)"
  by (simp add: dict_getitem_def split: option.splits)

lemma no_click_dangling_loop:
  "no_click_exception (dangling_loop is_dir net self artifacts source_targets auts dangling)"
proof (induction auts arbitrary: dangling)
  case Nil
  show ?case by simp
next
  case (Cons a auts)
  have decide: "no_click_exception
      (case dict_get c ''mainSourceFile'' None of
         None \<Rightarrow> Inr True
       | Some x \<Rightarrow>
           ebind (dict_getitem c ''mainSourceFile'') (\<lambda>f.
             case f of
               None \<Rightarrow> Inl TypeError
             | Some source_file \<Rightarrow>
                 ebind (path_inclusion_checker is_dir source_targets
                          (normalize_path artifacts source_file))
                   (\<lambda>included. Inr (\<not> included))))" for c
  proof (cases "dict_get c ''mainSourceFile'' None")
    case None
    then show ?thesis by simp
  next
    case (Some x)
    have "no_click_exception
        (ebind (dict_getitem c ''mainSourceFile'') (\<lambda>f.
           case f of
             None \<Rightarrow> Inl TypeError
           | Some source_file \<Rightarrow>
               ebind (path_inclusion_checker is_dir source_targets
                        (normalize_path artifacts source_file))
                 (\<lambda>included. Inr (\<not> included))))"
    proof (rule no_click_ebind [OF no_click_dict_getitem])
      fix f :: "string option"
      show "no_click_exception
          (case f of
             None \<Rightarrow> Inl TypeError
           | Some source_file \<Rightarrow>
               ebind (path_inclusion_checker is_dir source_targets
                        (normalize_path artifacts source_file))
                 (\<lambda>included. Inr (\<not> included)))"
        by (cases f) (simp_all add: no_click_ebind [OF no_click_path_inclusion_checker])
    qed
    with Some show ?thesis by simp
  qed
  show ?case unfolding dangling_loop.simps
  proof (rule no_click_ebind [OF no_click_get_contract_by_address])
    fix contract :: "Contract option"
    show "no_click_exception
        (case contract of
           None \<Rightarrow>
             dangling_loop is_dir net self artifacts source_targets auts (dangling @ [(None, a)])
         | Some c \<Rightarrow>
             ebind (case dict_get c ''mainSourceFile'' None of
                      None \<Rightarrow> Inr True
                    | Some x \<Rightarrow>
                        ebind (dict_getitem c ''mainSourceFile'') (\<lambda>f.
                          case f of
                            None \<Rightarrow> Inl TypeError
                          | Some source_file \<Rightarrow>
                              ebind (path_inclusion_checker is_dir source_targets
                                       (normalize_path artifacts source_file))
                                (\<lambda>included. Inr (\<not> included)))) (\<lambda>is_dangling.
               if is_dangling
               then dangling_loop is_dir net self artifacts source_targets auts
                      (dangling @ [(dict_get c ''mainSourceFile'' None, a)])
               else dangling_loop is_dir net self artifacts source_targets auts dangling))"
    proof (cases contract)
      case None
      then show ?thesis by (simp add: Cons.IH)
    next
      case (Some c)
      show ?thesis unfolding Some option.case
        by (rule no_click_ebind [OF decide]) (simp add: Cons.IH)
    qed
  qed
qed

lemma no_click_collect_dangling_contracts:
  "no_click_exception (collect_dangling_contracts is_dir net self auts artifacts source_targets)"
  by (simp add: collect_dangling_contracts_def no_click_dangling_loop)

lemma ne_empty_if_mem: "x \<in> A \<Longrightarrow> A \<noteq> {}"
  by (rule notI) simp

lemma handle_mismatched_not_unknown:
  "handle_mismatched_targets mm \<noteq> ClickException (unknown_target_prefix @ m)"
  by (simp add: handle_mismatched_targets_def unknown_target_prefix_def)

lemma handle_dangling_not_unknown:
  "handle_dangling_contracts dg \<noteq> ClickException (unknown_target_prefix @ m)"
  by (simp add: handle_dangling_contracts_def unknown_target_prefix_def)

lemma check_stages_unknown:
  "get_inconsistent_addresses mk net self seed_state = Inr (missing, unknown) \<Longrightarrow>
   unknown \<noteq> [] \<Longrightarrow>
   check_stages is_dir mk net self seed_state artifacts auts source_targets
     = (Inl (handle_unknown_target_addresses unknown), [])"
  by (simp add: check_stages_def)

lemma check_stages_no_unknown:
  assumes "get_inconsistent_addresses mk net self seed_state = Inr (missing, [])"
  shows "fst (check_stages is_dir mk net self seed_state artifacts auts source_targets)
           \<noteq> Inl (ClickException (unknown_target_prefix @ m))"
proof (cases "collect_mismatched_targets net self missing artifacts source_targets")
  case (Inl e)
  with no_click_collect_mismatched_targets [of net self missing artifacts source_targets]
  have "e \<noteq> ClickException (unknown_target_prefix @ m)" by auto
  with Inl assms show ?thesis by (simp add: check_stages_def)
next
  case (Inr p)
  obtain mm resolved where p: "p = (mm, resolved)" by (cases p)
  show ?thesis
  proof (cases "mm = []")
    case False
    with Inr p assms show ?thesis
      by (simp add: check_stages_def handle_mismatched_not_unknown)
  next
    case True
    show ?thesis
    proof (cases "collect_dangling_contracts is_dir net self auts artifacts source_targets")
      case (Inl e)
      with no_click_collect_dangling_contracts [of is_dir net self auts artifacts source_targets]
      have "e \<noteq> ClickException (unknown_target_prefix @ m)" by auto
      with Inl True Inr p assms show ?thesis by (simp add: check_stages_def Let_def)
    next
      case dg: (Inr dg)
      with True Inr p assms show ?thesis
        by (simp add: check_stages_def Let_def handle_dangling_not_unknown)
    qed
  qed
qed

lemma check_contracts_after_setup:
  assumes "smart_mode_setup mk net self smart_mode seed_state source_targets artifacts
             = (Inr (auts, targets), printed)"
    and "check_stages is_dir mk net self seed_state artifacts auts
           (map (normalize_path artifacts) targets) = (r, printed')"
  shows "check_contracts is_dir mk net self seed_state artifacts source_targets smart_mode
           = ((case r of Inl (RPCCallError m) \<Rightarrow> Inl (UsageError m) | _ \<Rightarrow> r), printed @ printed')"
proof (cases r)
  case (Inl e)
  with assms show ?thesis by (cases e) (simp_all add: check_contracts_def)
next
  case (Inr x)
  with assms show ?thesis by (simp add: check_contracts_def)
qed

lemma check_contracts_raises_unknown:
  assumes "smart_mode_setup mk net self smart_mode seed_state source_targets artifacts
             = (Inr (auts, targets), printed)"
    and "get_inconsistent_addresses mk net self seed_state = Inr (missing, unknown)"
    and "unknown \<noteq> []"
  shows "check_contracts is_dir mk net self seed_state artifacts source_targets smart_mode = (Inl (ClickException (unknown_target_prefix @ join '', '' unknown)), printed)"
proof -
  from check_stages_unknown [OF assms(2) assms(3)]
  have "check_stages is_dir mk net self seed_state artifacts auts
                   (map (normalize_path artifacts) targets) = (Inl (handle_unknown_target_addresses unknown), [])" .
  from check_contracts_after_setup [OF assms(1) this]
  show ?thesis by (simp add: handle_unknown_target_addresses_def unknown_target_prefix_def)
qed


lemma check_contracts_no_unknown:
  assumes "smart_mode_setup mk net self smart_mode seed_state source_targets artifacts
             = (Inr (auts, targets), printed)"
    and "get_inconsistent_addresses mk net self seed_state = Inr (missing, [])"
  shows "fst (check_contracts is_dir mk net self seed_state artifacts source_targets smart_mode) \<noteq> Inl (ClickException (unknown_target_prefix @ m))"
proof -
  let ?check = "check_contracts is_dir mk net self seed_state artifacts source_targets smart_mode"
  let ?stages = "check_stages is_dir mk net self seed_state artifacts auts
                   (map (normalize_path artifacts) targets)"
  obtain r printed' where st: "?stages = (r, printed')" by (cases ?stages)
  from check_stages_no_unknown [OF assms(2), of is_dir artifacts auts
      "map (normalize_path artifacts) targets" m] st
  have r: "r \<noteq> Inl (ClickException (unknown_target_prefix @ m))" by simp
  from check_contracts_after_setup [OF assms(1) st]
  have c: "fst ?check = (case r of Inl (RPCCallError m) \<Rightarrow> Inl (UsageError m) | _ \<Rightarrow> r)" by simp
  show ?thesis
  proof (cases r)
    case (Inl e)
    with r c show ?thesis by (cases e) simp_all
  next
    case (Inr x)
    with c show ?thesis by simp
  qed
qed


text \<open>
  Claim C4, amended. Once smart-mode resolution has returned and the inconsistency scan
  has returned its two collections, \<open>check_contracts\<close> raises the unknown-target error
  exactly when some declared address (lowercased) is not among the derived
  contract-creation addresses. The list of unknown targets holds every such address; the
  error names them all, joined by commas; and nothing is printed after smart-mode
  resolution, so the later stages do not run.
\<close>

theorem check_contracts_unknown_targets:
  assumes "smart_mode_setup mk net self smart_mode seed_state source_targets artifacts
             = (Inr (auts, targets), printed)"
    and "get_inconsistent_addresses mk net self seed_state = Inr (missing, unknown)"
  shows "\<exists>deployed. get_all_deployed_contracts_addresses mk seed_state = Inr deployed
           \<and> set unknown = {a \<in> set (addresses_under_test seed_state). a \<notin> set deployed}
           \<and> ((\<exists>m. fst (check_contracts is_dir mk net self seed_state artifacts source_targets
                          smart_mode) = Inl (ClickException (unknown_target_prefix @ m)))
                = (\<exists>a\<in>set (addresses_under_test seed_state). a \<notin> set deployed))
           \<and> (unknown \<noteq> [] \<longrightarrow>
                 check_contracts is_dir mk net self seed_state artifacts source_targets smart_mode
                   = (Inl (ClickException (unknown_target_prefix @ join '', '' unknown)), printed))"
proof -
  let ?check = "check_contracts is_dir mk net self seed_state artifacts source_targets smart_mode"
  from get_inconsistent_addresses_Inr [OF assms(2)] obtain deployed where
    d: "get_all_deployed_contracts_addresses mk seed_state = Inr deployed"
    and u: "unknown = filter (\<lambda>a. a \<notin> set deployed) (addresses_under_test seed_state)"
    by (elim exE conjE)
  have su: "set unknown = {a \<in> set (addresses_under_test seed_state). a \<notin> set deployed}"
    unfolding u by (rule set_filter)
  have iff: "(\<exists>m. fst ?check = Inl (ClickException (unknown_target_prefix @ m)))
      = (\<exists>a\<in>set (addresses_under_test seed_state). a \<notin> set deployed)"
  proof
    assume ex: "\<exists>m. fst ?check = Inl (ClickException (unknown_target_prefix @ m))"
    show "\<exists>a\<in>set (addresses_under_test seed_state). a \<notin> set deployed"
    proof (rule ccontr)
      assume "\<not> (\<exists>a\<in>set (addresses_under_test seed_state). a \<notin> set deployed)"
      then have "set unknown = {}" unfolding su by simp
      then have e: "unknown = []" by simp
      from ex obtain m where
        "fst ?check = Inl (ClickException (unknown_target_prefix @ m))" ..
      with check_contracts_no_unknown [OF assms(1) assms(2) [unfolded e], of is_dir m]
      show False by simp
    qed
  next
    assume "\<exists>a\<in>set (addresses_under_test seed_state). a \<notin> set deployed"
    then obtain a where "a \<in> set (addresses_under_test seed_state)" "a \<notin> set deployed" ..
    then have "a \<in> set unknown" unfolding su by simp
    then have "set unknown \<noteq> {}" by (rule ne_empty_if_mem)
    then have "unknown \<noteq> []" by simp
    from check_contracts_raises_unknown [OF assms(1) assms(2) this, of is_dir]
    have "fst ?check = Inl (ClickException (unknown_target_prefix @ join '', '' unknown))" by simp
    then show "\<exists>m. fst ?check = Inl (ClickException (unknown_target_prefix @ m))" by (rule exI)
  qed
  show ?thesis
  proof (intro exI conjI impI)
    show "get_all_deployed_contracts_addresses mk seed_state = Inr deployed" by (fact d)
    show "set unknown = {a \<in> set (addresses_under_test seed_state). a \<notin> set deployed}"
      by (fact su)
    show "(\<exists>m. fst ?check = Inl (ClickException (unknown_target_prefix @ m)))
      = (\<exists>a\<in>set (addresses_under_test seed_state). a \<notin> set deployed)" by (fact iff)
    assume "unknown \<noteq> []"
    from check_contracts_raises_unknown [OF assms(1) assms(2) this]
    show "?check = (Inl (ClickException (unknown_target_prefix @ join '', '' unknown)), printed)" .
  qed
qed

lemma lower_0xBB: "lower ''0xBB'' = ''0xbb''"
  by code_simp

lemma get_contract_by_address_chain_node:
  "get_contract_by_address (chain_node blocks codes) self a artifacts =
     (case map_of codes a of
        None \<Rightarrow> Inr None
      | Some c \<Rightarrow>
          if c = ''0x'' then Inr None
          else (case get_contract artifacts (JStr c) of
                  None \<Rightarrow> Inr None
                | Some contract \<Rightarrow>
                    if contract = [] \<or> dict_get contract ''mainSourceFile'' None = None
                    then Inr None else Inr (Some contract)))"
  by (simp add: get_contract_by_address_def run_rpc_get_code_chain_node split: option.splits)

lemma lower_0xDD: "lower ''0xDD'' = ''0xdd''"
  by code_simp

lemma addresses_under_test_two_declared:
  "addresses_under_test (example_seed_state ''0xBB'' (Some [''0xDD'']) txs) = [''0xbb'', ''0xdd'']"
  by (simp add: addresses_under_test_def example_seed_state_def set_update_def set_add_def
      lower_0xBB lower_0xDD)

lemma addresses_under_test_one_declared:
  "addresses_under_test (example_seed_state ''0xBB'' None txs) = [''0xbb'']"
  by (simp add: addresses_under_test_def example_seed_state_def set_update_def set_add_def
      lower_0xBB)

lemma get_all_deployed_example:
  "get_all_deployed_contracts_addresses example_deriver
     (example_seed_state a others [example_creation]) = Inr [example_created_address]"
  by (simp add: get_all_deployed_contracts_addresses_def example_seed_state_def
      deployed_loop_example)

lemma undeclared_example_addresses:
  "''0xbb'' \<noteq> example_created_address" "''0xdd'' \<noteq> example_created_address"
  "example_created_address \<noteq> ''0xbb''" "example_created_address \<noteq> ''0xdd''"
  by (simp_all add: example_created_address_def)

theorem check_contracts_unknown_targets_witness:
  "check_contracts no_directories example_deriver (chain_node [] []) example_client
     (example_seed_state ''0xBB'' (Some [''0xDD'']) [example_creation]) example_artifacts None True
   = (Inl (ClickException ''Unable to find contracts deployed at 0xbb, 0xdd''), [])"
proof -
  let ?seed = "example_seed_state ''0xBB'' (Some [''0xDD'']) [example_creation]"
  let ?net = "chain_node [] []"
  have resolved: "smart_mode_setup example_deriver ?net example_client True ?seed None
      example_artifacts = (Inr ([''0xbb'', ''0xdd''], []), [])"
    by (simp add: smart_mode_setup_def addresses_under_test_two_declared set_update_def
        get_contract_by_address_chain_node)
  have scan: "get_inconsistent_addresses example_deriver ?net example_client ?seed
      = Inr ([(example_created_address, JNull)], [''0xbb'', ''0xdd''])"
    by (simp add: get_inconsistent_addresses_def get_all_deployed_example
        addresses_under_test_two_declared undeclared_example_addresses
        run_rpc_get_code_chain_node)
  from check_contracts_unknown_targets [OF resolved scan, of no_directories]
  have "check_contracts no_directories example_deriver ?net example_client ?seed
          example_artifacts None True
        = (Inl (ClickException (unknown_target_prefix @ join '', '' [''0xbb'', ''0xdd''])), [])"
    by (elim exE conjE) simp
  then show ?thesis by (simp add: unknown_target_prefix_def)
qed

lemma check_contracts_smart_mode_off:
  "check_contracts no_directories example_deriver (chain_node [] []) example_client
     (example_seed_state ''0xBB'' None [example_creation]) example_artifacts None False
   = (Inl (ClickException no_targets_message), [])"
  by (simp add: check_contracts_def smart_mode_setup_def addresses_under_test_one_declared)

text \<open>
  Claim C4, as stated, fails when smart-mode resolution fails first. With smart mode off
  and no source targets, the declared address \<open>0xBB\<close> is not among the derived
  addresses, yet \<open>check_contracts\<close> raises the error that no targets are provided, not
  the unknown-target error.
\<close>

theorem check_contracts_unknown_target_preempted:
  "check_contracts no_directories example_deriver (chain_node [] []) example_client
     (example_seed_state ''0xBB'' None [example_creation]) example_artifacts None False
   = (Inl (ClickException no_targets_message), [])
   \<and> addresses_under_test (example_seed_state ''0xBB'' None [example_creation]) = [''0xbb'']
   \<and> get_all_deployed_contracts_addresses example_deriver
         (example_seed_state ''0xBB'' None [example_creation]) = Inr [example_created_address]
   \<and> ''0xbb'' \<notin> set [example_created_address]
   \<and> no_targets_message \<noteq> unknown_target_prefix @ ''0xbb''"
  by (simp add: check_contracts_smart_mode_off addresses_under_test_one_declared
      get_all_deployed_example undeclared_example_addresses)
    (simp add: no_targets_message_def unknown_target_prefix_def)

section \<open>Reconciliation: mismatched targets\<close>

lemma resolve_missing_Cons:
  "resolve_missing net self artifacts ((a, code) # rest) resolved =
     ebind (get_contract_by_address net self a artifacts) (\<lambda>contract.
       resolve_missing net self artifacts rest
         (resolved @ [(a, source_file_field contract, contract_name_field contract)]))"
  by (simp add: source_file_field_def contract_name_field_def)

declare resolve_missing.simps(2) [simp del]

lemma resolve_missing_Inr:
  "resolve_missing net self artifacts missing resolved = Inr res \<Longrightarrow>
   \<exists>entries. res = resolved @ entries \<and> map fst entries = map fst missing
     \<and> (\<forall>(a, src, name)\<in>set entries.
           \<exists>contract. get_contract_by_address net self a artifacts = Inr contract
             \<and> src = source_file_field contract \<and> name = contract_name_field contract)"
proof (induction missing arbitrary: resolved)
  case Nil
  then show ?case by simp
next
  case (Cons p missing)
  obtain a code where p: "p = (a, code)" by (cases p)
  from Cons.prems obtain contract where
    c: "get_contract_by_address net self a artifacts = Inr contract"
    and rest: "resolve_missing net self artifacts missing
        (resolved @ [(a, source_file_field contract, contract_name_field contract)]) = Inr res"
    unfolding p resolve_missing_Cons ebind_eq_Inr by (elim exE conjE)
  from Cons.IH [OF rest] obtain entries where
    res: "res = (resolved @ [(a, source_file_field contract, contract_name_field contract)]) @ entries"
    and keys: "map fst entries = map fst missing"
    and ents: "\<forall>(a, src, name)\<in>set entries.
           \<exists>contract. get_contract_by_address net self a artifacts = Inr contract
             \<and> src = source_file_field contract \<and> name = contract_name_field contract"
    by (elim exE conjE)
  let ?entries = "(a, source_file_field contract, contract_name_field contract) # entries"
  have "res = resolved @ ?entries" using res by simp
  moreover have "map fst ?entries = map fst (p # missing)" using keys p by simp
  moreover have "\<forall>(a, src, name)\<in>set ?entries.
           \<exists>contract. get_contract_by_address net self a artifacts = Inr contract
             \<and> src = source_file_field contract \<and> name = contract_name_field contract"
    using ents c by simp
  ultimately show ?case by (intro exI [of _ ?entries] conjI)
qed

lemma mismatched_loop_set:
  "set (mismatched_loop source_targets resolved mismatched) =
     set mismatched \<union> {(f, a). \<exists>name. (a, Some f, name) \<in> set resolved
                              \<and> f \<noteq> ''null'' \<and> f \<in> set source_targets}"
proof (induction resolved arbitrary: mismatched)
  case Nil
  show ?case by simp
next
  case (Cons t resolved)
  obtain a src name where t: "t = (a, src, name)" by (cases t)
  show ?case
  proof (cases src)
    case None
    with t Cons.IH [of mismatched] show ?thesis by auto
  next
    case (Some f)
    show ?thesis
    proof (cases "f \<noteq> ''null'' \<and> f \<in> set source_targets")
      case True
      with t Some Cons.IH [of "mismatched @ [(f, a)]"] show ?thesis by auto
    next
      case False
      with t Some Cons.IH [of mismatched] show ?thesis by auto
    qed
  qed
qed

lemma source_file_field_Some:
  "source_file_field contract = Some f \<Longrightarrow> f \<noteq> ''null'' \<Longrightarrow>
   \<exists>c. contract = Some c \<and> map_of c ''mainSourceFile'' = Some (Some f)"
  by (cases contract)
    (auto simp: source_file_field_def dict_get_def split: if_splits option.splits)

lemma collect_mismatched_targets_null_source:
  "collect_mismatched_targets (chain_node [] [(''0xcc'', ''0x60'')]) example_client
     [(''0xcc'', JStr ''0x60'')] null_source_artifacts [''null'']
   = Inr ([], [(''0xcc'', Some ''null'', Some ''Token'')])"
  by (simp add: collect_mismatched_targets_def resolve_missing_Cons
      get_contract_by_address_chain_node null_source_artifacts_def dict_get_def
      source_file_field_def contract_name_field_def)

text \<open>
  Claim C10, as stated, fails in its last part. A deployed contract whose main source file
  is the string \<open>null\<close> and whose name is \<open>Token\<close> is skipped by the mismatched-target
  check although \<open>null\<close> is a declared source target, but its entry in the resolved
  missing targets has \<open>Token\<close>, not \<open>null\<close>, as its contract-name field.
\<close>

theorem collect_mismatched_targets_keeps_contract_name:
  "collect_mismatched_targets (chain_node [] [(''0xcc'', ''0x60'')]) example_client
     [(''0xcc'', JStr ''0x60'')] null_source_artifacts [''null'']
   = Inr ([], [(''0xcc'', Some ''null'', Some ''Token'')])
   \<and> (''0xcc'', Some ''null'', Some ''null'') \<notin> set [(''0xcc'', Some ''null'', Some ''Token'')]"
  by (simp add: collect_mismatched_targets_null_source)

text \<open>
  Claim C10, amended. The resolved missing targets have one entry per missing-target
  address, in order; the source-file field of an entry is the main source file of the
  resolved contract and its contract-name field is the contract name of the resolved
  contract, each replaced by the sentinel \<open>null\<close> when the contract does not resolve or
  lacks that member. A mismatched target is recorded only for an address whose contract
  resolves with a main source file that is not the string \<open>null\<close> and is a declared
  source target: an address that does not resolve, or whose main source file is
  \<open>null\<close>, is never recorded, whatever the declared source targets are.
\<close>

theorem collect_mismatched_targets_null_sentinel:
  assumes "collect_mismatched_targets net self missing artifacts source_targets
             = Inr (mismatched, resolved)"
  shows "map fst resolved = map fst missing
         \<and> (\<forall>(a, src, name)\<in>set resolved.
               \<exists>contract. get_contract_by_address net self a artifacts = Inr contract
                 \<and> src = source_file_field contract \<and> name = contract_name_field contract)
         \<and> (\<forall>(f, a)\<in>set mismatched.
               f \<noteq> ''null'' \<and> f \<in> set source_targets
               \<and> (\<exists>c. get_contract_by_address net self a artifacts = Inr (Some c)
                      \<and> map_of c ''mainSourceFile'' = Some (Some f)))
         \<and> source_file_field None = Some ''null'' \<and> contract_name_field None = Some ''null''
         \<and> (\<forall>c. c \<noteq> [] \<longrightarrow>
               source_file_field (Some c) = dict_get c ''mainSourceFile'' (Some ''null'')
               \<and> contract_name_field (Some c) = dict_get c ''contractName'' (Some ''null''))"
proof -
  from assms obtain res where
    rm: "resolve_missing net self artifacts missing [] = Inr res"
    and mm: "mismatched = mismatched_loop source_targets res []" and rr: "resolved = res"
    by (auto simp: collect_mismatched_targets_def ebind_eq_Inr)
  from resolve_missing_Inr [OF rm] rr have
    keys: "map fst resolved = map fst missing"
    and ents: "\<forall>(a, src, name)\<in>set resolved.
           \<exists>contract. get_contract_by_address net self a artifacts = Inr contract
             \<and> src = source_file_field contract \<and> name = contract_name_field contract"
    by simp_all
  have recorded: "f \<noteq> ''null'' \<and> f \<in> set source_targets
        \<and> (\<exists>c. get_contract_by_address net self a artifacts = Inr (Some c)
               \<and> map_of c ''mainSourceFile'' = Some (Some f))"
    if "(f, a) \<in> set mismatched" for f a
  proof -
    from that mm rr mismatched_loop_set [of source_targets resolved "[]"]
    obtain name where e: "(a, Some f, name) \<in> set resolved"
      and f: "f \<noteq> ''null''" "f \<in> set source_targets" by auto
    from ents e obtain contract where
      c: "get_contract_by_address net self a artifacts = Inr contract"
      and s: "Some f = source_file_field contract" by fastforce
    from source_file_field_Some [OF s [symmetric] f(1)] c f show ?thesis by auto
  qed
  have rec_all: "\<forall>(f, a)\<in>set mismatched.
               f \<noteq> ''null'' \<and> f \<in> set source_targets
               \<and> (\<exists>c. get_contract_by_address net self a artifacts = Inr (Some c)
                      \<and> map_of c ''mainSourceFile'' = Some (Some f))"
  proof (rule ballI)
    fix p assume p: "p \<in> set mismatched"
    obtain f a where fa: "p = (f, a)" by (cases p)
    from recorded [of f a] p fa
    show "case p of (f, a) \<Rightarrow> f \<noteq> ''null'' \<and> f \<in> set source_targets
        \<and> (\<exists>c. get_contract_by_address net self a artifacts = Inr (Some c)
               \<and> map_of c ''mainSourceFile'' = Some (Some f))" by simp
  qed
  have n1: "source_file_field None = Some ''null''" by (simp add: source_file_field_def)
  have n2: "contract_name_field None = Some ''null''" by (simp add: contract_name_field_def)
  have c_all: "\<forall>c. c \<noteq> [] \<longrightarrow>
               source_file_field (Some c) = dict_get c ''mainSourceFile'' (Some ''null'')
               \<and> contract_name_field (Some c) = dict_get c ''contractName'' (Some ''null'')"
    by (simp add: source_file_field_def contract_name_field_def)
  show ?thesis
    by (intro conjI, fact keys, fact ents, fact rec_all, fact n1, fact n2, fact c_all)
qed

theorem collect_mismatched_targets_null_sentinel_witness:
  "get_contract_by_address (chain_node [] [(''0xcc'', ''0x60'')]) example_client ''0xcc''
     null_source_artifacts
     = Inr (Some [(''mainSourceFile'', Some ''null''), (''contractName'', Some ''Token'')])
   \<and> (''null'', ''0xcc'') \<notin> set ([] :: (string \<times> string) list)
   \<and> map fst [(''0xcc'', Some ''null'', Some ''Token'')] = map fst [(''0xcc'', JStr ''0x60'')]"
proof -
  from collect_mismatched_targets_null_sentinel [OF collect_mismatched_targets_null_source]
  have "map fst [(''0xcc'', Some ''null'', Some ''Token'')] = map fst [(''0xcc'', JStr ''0x60'')]"
    by (elim conjE)
  moreover have "get_contract_by_address (chain_node [] [(''0xcc'', ''0x60'')]) example_client
      ''0xcc'' null_source_artifacts
     = Inr (Some [(''mainSourceFile'', Some ''null''), (''contractName'', Some ''Token'')])"
    by (simp add: get_contract_by_address_chain_node null_source_artifacts_def dict_get_def)
  ultimately show ?thesis by simp
qed

section \<open>Path inclusion\<close>











lemma is_absolute_join:
  "proper_components cs \<Longrightarrow> \<not> is_absolute (join ''/'' cs)"
proof (induction "''/''" cs rule: join.induct)
  case 1
  show ?case by (simp add: is_absolute_def)
next
  case (2 x)
  then show ?case by (cases x) (auto simp: is_absolute_def proper_components_def)
next
  case (3 x y ys)
  then show ?case by (cases x) (auto simp: is_absolute_def proper_components_def)
qed

lemma is_absolute_root: "is_absolute (''/'' @ p)"
  by (simp add: is_absolute_def)















section \<open>Smart mode with nothing declared\<close>

lemma addresses_under_test_none_declared:
  "addresses_under_test (example_seed_state [] None txs) = []"
  by (simp add: addresses_under_test_def example_seed_state_def set_update_def)

lemma example_contract_resolves:
  "get_contract_by_address (chain_node [] [(example_created_address, ''0x6080'')]) self
     example_created_address example_artifacts
   = Inr (Some [(''mainSourceFile'', Some example_source_file), (''contractName'', Some ''Foo'')])"
  by (simp add: get_contract_by_address_chain_node example_artifacts_def dict_get_def)

lemma normalize_example_source_file:
  "normalize_path example_artifacts example_source_file = example_source_file"
  by (simp add: example_artifacts_def example_source_file_def is_absolute_def)

lemma smart_mode_setup_nothing_declared:
  "smart_mode_setup example_deriver (chain_node [] [(example_created_address, ''0x6080'')])
     example_client True (example_seed_state [] None [example_creation]) None example_artifacts
   = (Inr ([example_created_address], [example_source_file]), [])"
  by (simp add: smart_mode_setup_def addresses_under_test_none_declared get_all_deployed_example
      set_update_def example_contract_resolves dict_getitem_def set_add_def)

lemma get_inconsistent_addresses_nothing_declared:
  "get_inconsistent_addresses example_deriver
     (chain_node [] [(example_created_address, ''0x6080'')]) example_client
     (example_seed_state [] None [example_creation])
   = Inr ([(example_created_address, JStr ''0x6080'')], [])"
  by (simp add: get_inconsistent_addresses_def get_all_deployed_example
      addresses_under_test_none_declared run_rpc_get_code_chain_node)

lemma example_source_file_not_null: "example_source_file \<noteq> ''null''"
  by (simp add: example_source_file_def)

lemma collect_mismatched_targets_nothing_declared:
  "collect_mismatched_targets (chain_node [] [(example_created_address, ''0x6080'')])
     example_client [(example_created_address, JStr ''0x6080'')] example_artifacts
     [example_source_file]
   = Inr ([(example_source_file, example_created_address)],
          [(example_created_address, Some example_source_file, Some ''Foo'')])"
  by (simp add: collect_mismatched_targets_def resolve_missing_Cons example_contract_resolves
      source_file_field_def contract_name_field_def dict_get_def example_source_file_not_null)

text \<open>
  Claim C2. The chain has one contract-creation transaction, from \<open>0xaa..aa\<close> with nonce
  \<open>0x0\<close>; nothing is declared, smart mode is on, and the resolver matches the deployed
  bytecode to \<open>/project/contracts/Foo.sol\<close>, a path that normalisation leaves as it is.
  Smart-mode resolution derives the address and the source file, but the inconsistency
  scan reads the declared addresses of the seed state, which are none: the derived
  address is a missing target, its source file is among the derived targets, and
  \<open>check_contracts\<close> raises the mismatched-target error.
\<close>

theorem check_contracts_smart_mode_mismatched:
  "smart_mode_setup example_deriver (chain_node [] [(example_created_address, ''0x6080'')])
     example_client True (example_seed_state [] None [example_creation]) None example_artifacts
   = (Inr ([example_created_address], [''/project/contracts/Foo.sol'']), [])
   \<and> check_contracts no_directories example_deriver
     (chain_node [] [(example_created_address, ''0x6080'')]) example_client
     (example_seed_state [] None [example_creation]) example_artifacts None True
   = (Inl (ClickException
        (''Found contracts deployed at the following addresses ''
         @ ''but they are not marked as addresses under test: '' @ [CHR 0x0A]
         @ ''  '' @ bullet @ '' Target: /project/contracts/Foo.sol Address: ''
         @ example_created_address)), [])"
proof
  show "smart_mode_setup example_deriver (chain_node [] [(example_created_address, ''0x6080'')])
     example_client True (example_seed_state [] None [example_creation]) None example_artifacts
   = (Inr ([example_created_address], [''/project/contracts/Foo.sol'']), [])"
    using smart_mode_setup_nothing_declared by (simp add: example_source_file_def)
  have "check_stages no_directories example_deriver
      (chain_node [] [(example_created_address, ''0x6080'')]) example_client
      (example_seed_state [] None [example_creation]) example_artifacts
      [example_created_address] [example_source_file]
    = (Inl (handle_mismatched_targets [(example_source_file, example_created_address)]), [])"
    by (simp add: check_stages_def get_inconsistent_addresses_nothing_declared
        collect_mismatched_targets_nothing_declared)
  then have "check_contracts no_directories example_deriver
     (chain_node [] [(example_created_address, ''0x6080'')]) example_client
     (example_seed_state [] None [example_creation]) example_artifacts None True
    = (Inl (handle_mismatched_targets [(example_source_file, example_created_address)]), [])"
    by (simp add: check_contracts_def smart_mode_setup_nothing_declared
        normalize_example_source_file handle_mismatched_targets_def)
  then show "check_contracts no_directories example_deriver
     (chain_node [] [(example_created_address, ''0x6080'')]) example_client
     (example_seed_state [] None [example_creation]) example_artifacts None True
   = (Inl (ClickException
        (''Found contracts deployed at the following addresses ''
         @ ''but they are not marked as addresses under test: '' @ [CHR 0x0A]
         @ ''  '' @ bullet @ '' Target: /project/contracts/Foo.sol Address: ''
         @ example_created_address)), [])"
    by (simp add: handle_mismatched_targets_def example_source_file_def)
qed

text \<open>
  The same chain with a resolver whose main source file is relative: normalisation
  changes the derived target, the resolved source file is no longer among the targets,
  and the run completes after printing the acknowledgement.
\<close>

lemma relative_contract_resolves:
  "get_contract_by_address (chain_node [] [(example_created_address, ''0x6080'')]) self
     example_created_address relative_source_artifacts
   = Inr (Some [(''mainSourceFile'', Some ''contracts/Foo.sol''), (''contractName'', Some ''Foo'')])"
  by (simp add: get_contract_by_address_chain_node relative_source_artifacts_def dict_get_def)

lemma normalize_relative_source_file:
  "normalize_path relative_source_artifacts ''contracts/Foo.sol'' = ''/project/contracts/Foo.sol''"
  by (simp add: relative_source_artifacts_def is_absolute_def)

lemma normalize_relative_source_file_absolute:
  "normalize_path relative_source_artifacts ''/project/contracts/Foo.sol''
   = ''/project/contracts/Foo.sol''"
  by (simp add: relative_source_artifacts_def is_absolute_def)

lemma smart_mode_setup_relative_source:
  "smart_mode_setup example_deriver (chain_node [] [(example_created_address, ''0x6080'')])
     example_client True (example_seed_state [] None [example_creation]) None
     relative_source_artifacts
   = (Inr ([example_created_address], [''contracts/Foo.sol'']), [])"
  by (simp add: smart_mode_setup_def addresses_under_test_none_declared get_all_deployed_example
      set_update_def relative_contract_resolves dict_getitem_def set_add_def)

lemma collect_mismatched_targets_relative_source:
  "collect_mismatched_targets (chain_node [] [(example_created_address, ''0x6080'')])
     example_client [(example_created_address, JStr ''0x6080'')] relative_source_artifacts
     [''/project/contracts/Foo.sol'']
   = Inr ([], [(example_created_address, Some ''contracts/Foo.sol'', Some ''Foo'')])"
  by (simp add: collect_mismatched_targets_def resolve_missing_Cons relative_contract_resolves
      source_file_field_def contract_name_field_def dict_get_def)

lemma collect_dangling_contracts_relative_source:
  "collect_dangling_contracts no_directories
     (chain_node [] [(example_created_address, ''0x6080'')]) example_client
     [example_created_address] relative_source_artifacts [''/project/contracts/Foo.sol'']
   = Inr []"
  by (simp add: collect_dangling_contracts_def relative_contract_resolves dict_get_def
      dict_getitem_def normalize_relative_source_file path_inclusion_checker_def
      no_directories_def)

lemma check_contracts_smart_mode_relative_source:
  "check_contracts no_directories example_deriver
     (chain_node [] [(example_created_address, ''0x6080'')]) example_client
     (example_seed_state [] None [example_creation]) relative_source_artifacts None True
   = (Inr (),
      [handle_missing_target_addresses
         [(example_created_address, Some ''contracts/Foo.sol'', Some ''Foo'')]])"
proof -
  have "check_stages no_directories example_deriver
      (chain_node [] [(example_created_address, ''0x6080'')]) example_client
      (example_seed_state [] None [example_creation]) relative_source_artifacts
      [example_created_address] [''/project/contracts/Foo.sol'']
    = (Inr (),
      [handle_missing_target_addresses
         [(example_created_address, Some ''contracts/Foo.sol'', Some ''Foo'')]])"
    by (simp add: check_stages_def get_inconsistent_addresses_nothing_declared
        collect_mismatched_targets_relative_source collect_dangling_contracts_relative_source)
  then show ?thesis
    by (simp add: check_contracts_def smart_mode_setup_relative_source
        normalize_relative_source_file)
qed

end
